theory Spec2Isabelle
  imports Complex_Main "HOL-Library.Word"
begin

section \<open>Go library functions that mysqldump.go calls\<close>

text \<open>
  Go strings and byte slices are byte sequences: both are modelled as \<open>string\<close>
  (a list of 8-bit characters). The Go \<open>error\<close> interface is an option: \<open>None\<close> is
  \<open>nil\<close>. Writes to the log are not part of the model.
\<close>

subsection \<open>strings.Replace\<close>

text \<open>
  \<open>strings.Replace(s, old, new, n)\<close>: the first \<open>n\<close> non-overlapping occurrences of
  \<open>old\<close>, found from the left, are replaced by \<open>new\<close>; every occurrence when
  \<open>n < 0\<close>. The program only passes the non-empty patterns \<open>"UNSIGNED"\<close>, \<open>" "\<close>,
  \<open>"'"\<close> and \<open>"CREATE TABLE"\<close>; Go's rule for an empty pattern (an insertion at every
  rune boundary) is not modelled, and the model leaves the text unchanged there.
\<close>

function strings_Replace :: "string \<Rightarrow> string \<Rightarrow> string \<Rightarrow> int \<Rightarrow> string" where
  "strings_Replace [] old new n = []"
| "strings_Replace (c # s) old new n =
     (if n \<noteq> 0 \<and> old \<noteq> [] \<and> take (length old) (c # s) = old
      then new @ strings_Replace (drop (length old) (c # s)) old new (if n < 0 then n else n - 1)
      else c # strings_Replace s old new n)"
  by pat_completeness auto
termination
  by (relation "measure (\<lambda>(s, old, new, n). length s)") auto

declare strings_Replace.simps(2) [simp del]

subsection \<open>Decimal digits, fmt's verbs d, f, s and X\<close>

definition digit_char :: "nat \<Rightarrow> char" where
  "digit_char d = ''0123456789ABCDEF'' ! d"

fun digits10 :: "nat \<Rightarrow> string" where
  "digits10 n = (if n < 10 then [digit_char n] else digits10 (n div 10) @ [digit_char (n mod 10)])"

declare digits10.simps [simp del]

text \<open>\<open>%d\<close> of a Go integer: base 10, a minus sign for a negative number.\<close>

definition fmt_d :: "int \<Rightarrow> string" where
  "fmt_d i = (if i < 0 then ''-'' @ digits10 (nat (- i)) else digits10 (nat i))"

text \<open>
  A Go floating-point number (float32 or float64): not a number, an infinity with its
  sign, or a finite number \<open>(-1)^sign * mantissa * 2^exponent\<close>.
\<close>

datatype gofloat = FNaN | FInf bool | FFinite bool nat int

text \<open>
  \<open>%f\<close> is \<open>strconv.AppendFloat(v, 'f', 6, size)\<close>: the exact binary number rounded to six
  decimal places, to nearest and to even on a tie, then the integer part, a point and
  six digits. \<open>scaled6 m e\<close> is \<open>m * 2^e * 10^6\<close> so rounded.
\<close>

definition round_half_even :: "nat \<Rightarrow> nat \<Rightarrow> nat" where
  "round_half_even a b =
     (let q = a div b; r = a mod b
      in if b < 2 * r \<or> (2 * r = b \<and> odd q) then q + 1 else q)"

definition scaled6 :: "nat \<Rightarrow> int \<Rightarrow> nat" where
  "scaled6 m e =
     (if 0 \<le> e then m * 2 ^ nat e * 10 ^ 6
      else round_half_even (m * 10 ^ 6) (2 ^ nat (- e)))"

definition pad_zero :: "nat \<Rightarrow> string \<Rightarrow> string" where
  "pad_zero width ds = replicate (width - length ds) (CHR ''0'') @ ds"

definition fmt_f :: "gofloat \<Rightarrow> string" where
  "fmt_f x =
     (case x of
        FNaN \<Rightarrow> ''NaN''
      | FInf neg \<Rightarrow> (if neg then ''-Inf'' else ''+Inf'')
      | FFinite neg m e \<Rightarrow>
          (let k = scaled6 m e
           in (if neg then ''-'' else '''') @ digits10 (k div 10 ^ 6) @ ''.''
              @ pad_zero 6 (digits10 (k mod 10 ^ 6))))"

text \<open>\<open>%X\<close> of a byte sequence: two upper-case hexadecimal digits for each byte.\<close>

definition hex_byte :: "char \<Rightarrow> string" where
  "hex_byte c = [digit_char (of_char c div 16), digit_char (of_char c mod 16)]"

definition fmt_X :: "string \<Rightarrow> string" where
  "fmt_X bs = concat (map hex_byte bs)"

subsection \<open>time.Time and its Format\<close>

text \<open>
  A \<open>time.Time\<close> is modelled by the calendar date and the clock reading that
  \<open>Format\<close> prints (in the value's own location). \<open>appendInt\<close> is the helper of
  package time that prints a number padded with zeros to a width.
\<close>

record gotime =
  year :: int
  month :: nat
  day :: nat
  hour :: nat
  minute :: nat
  second :: nat

definition appendInt :: "int \<Rightarrow> nat \<Rightarrow> string" where
  "appendInt x width =
     (if x < 0 then ''-'' @ pad_zero width (digits10 (nat (- x)))
      else pad_zero width (digits10 (nat x)))"

text \<open>\<open>t.Format("2006-01-02")\<close>\<close>

definition Format_date :: "gotime \<Rightarrow> string" where
  "Format_date t =
     appendInt (year t) 4 @ ''-'' @ appendInt (int (month t)) 2 @ ''-''
     @ appendInt (int (day t)) 2"

text \<open>\<open>t.Format("2006-01-02 15:04:05")\<close>\<close>

definition Format_datetime :: "gotime \<Rightarrow> string" where
  "Format_datetime t =
     Format_date t @ '' '' @ appendInt (int (hour t)) 2 @ '':''
     @ appendInt (int (minute t)) 2 @ '':'' @ appendInt (int (second t)) 2"

section \<open>The data model\<close>

text \<open>
  A cell is what \<open>Rows.Scan\<close> stores into an \<open>interface{}\<close>: \<open>nil\<close>, a byte slice, a
  string, an integer, a float, a boolean or a \<open>time.Time\<close>.
\<close>

datatype cell =
    VNil
  | VBytes string
  | VString string
  | VInt64 "64 word"
  | VUint64 "64 word"
  | VFloat gofloat
  | VBool bool
  | VTime gotime

text \<open>
  The errors of the program: one that a collaborator (driver, connection, DSN parser)
  returned, and the one line 382 builds with
  \<open>fmt.Errorf("unsupported type: %s", Type)\<close>.
\<close>

datatype goerror = DriverError string | UnsupportedType string

type_synonym error = "goerror option"

text \<open>
  What a piece of a function body does: it runs to its end with a value, it returns
  from the enclosing function with an error value (\<open>nil\<close> included), or it panics.
\<close>

datatype 'a step = Continue 'a | Return error | Panic

text \<open>
  \<open>fmt.Sprintf\<close> with one verb and one operand. The model spells out the pairs of verb
  and operand whose text the claims are about: \<open>%d\<close> of an integer, \<open>%f\<close> of a float,
  \<open>%s\<close> and \<open>%X\<close> of a byte slice or a string. For every other pair (a verb that does not
  fit the operand, the \<open>String\<close> method of a time) the text is what the parameter
  \<open>lib\<close> gives: \<open>lib v c\<close> stands for \<open>fmt.Sprintf("%" + v, c)\<close> there.
\<close>

type_synonym fmtlib = "char \<Rightarrow> cell \<Rightarrow> string"

definition Sprintf_d :: "fmtlib \<Rightarrow> cell \<Rightarrow> string" where
  "Sprintf_d lib col =
     (case col of
        VInt64 w \<Rightarrow> fmt_d (sint w)
      | VUint64 w \<Rightarrow> fmt_d (uint w)
      | _ \<Rightarrow> lib (CHR ''d'') col)"

definition Sprintf_f :: "fmtlib \<Rightarrow> cell \<Rightarrow> string" where
  "Sprintf_f lib col =
     (case col of
        VFloat x \<Rightarrow> fmt_f x
      | _ \<Rightarrow> lib (CHR ''f'') col)"

definition Sprintf_s :: "fmtlib \<Rightarrow> cell \<Rightarrow> string" where
  "Sprintf_s lib col =
     (case col of
        VBytes bs \<Rightarrow> bs
      | VString s \<Rightarrow> s
      | _ \<Rightarrow> lib (CHR ''s'') col)"

definition Sprintf_X :: "fmtlib \<Rightarrow> cell \<Rightarrow> string" where
  "Sprintf_X lib col =
     (case col of
        VBytes bs \<Rightarrow> fmt_X bs
      | VString s \<Rightarrow> fmt_X s
      | _ \<Rightarrow> lib (CHR ''X'') col)"

section \<open>The collaborators: the database behind database/sql\<close>

text \<open>
  The result of \<open>db.Query("SELECT * FROM `t`")\<close>: what \<open>Columns()\<close> and
  \<open>ColumnTypes()\<close> return (each column type by its \<open>DatabaseTypeName()\<close>), and, for
  every call of \<open>Next()\<close> that returns true, what the driver hands to \<open>Scan\<close>: an
  error or the values of that row.
\<close>

record rowset =
  rs_Columns :: "goerror + string list"
  rs_ColumnTypes :: "goerror + string list"
  rs_Next :: "(goerror + cell list) list"

text \<open>
  The answers of the connection. \<open>GetDBNameFromDSN\<close> is a function of the package that
  is not in mysqldump.go: its result for the DSN of the call is a field here. The
  answers do not depend on the queries made before.
\<close>

record database =
  sql_Open :: error
  GetDBNameFromDSN :: "goerror + string"
  Exec_USE :: "string \<Rightarrow> error"
  Query_SHOW_TABLES :: "goerror + (goerror + string) list"
  QueryRow_SHOW_CREATE_TABLE :: "string \<Rightarrow> goerror + string"
  Query_SELECT :: "string \<Rightarrow> goerror + rowset"

text \<open>
  \<open>Rows.Scan(dest...)\<close> of database/sql: the driver's error, an error when the number
  of destinations is not the number of values of the row, else the values as they are
  (the destinations are \<open>*interface{}\<close>).
\<close>

definition Scan :: "nat \<Rightarrow> goerror + cell list \<Rightarrow> goerror + cell list" where
  "Scan ndest r =
     (case r of
        Inl e \<Rightarrow> Inl e
      | Inr vals \<Rightarrow>
          if length vals \<noteq> ndest
          then Inl (DriverError (''sql: expected '' @ fmt_d (int (length vals))
                 @ '' destination arguments in Scan, not '' @ fmt_d (int ndest)))
          else Inr vals)"

section \<open>writeTableData (lines 258-395)\<close>

subsection \<open>One value: lines 310-383\<close>

text \<open>Lines 310-313: the reported type name without \<open>UNSIGNED\<close> and without spaces.\<close>

definition normalize_Type :: "string \<Rightarrow> string" where
  "normalize_Type name =
     strings_Replace (strings_Replace name ''UNSIGNED'' [] (- 1)) '' '' [] (- 1)"

text \<open>\<open>fmt.Sprintf("'%s'", s)\<close> of a string.\<close>

definition quoted :: "string \<Rightarrow> string" where
  "quoted s = [CHR 0x27] @ s @ [CHR 0x27]"

text \<open>
  \<open>switch Type\<close> (lines 314-383) compares \<open>Type\<close> with the labels of its thirteen
  \<open>case\<close> clauses in their order and runs the first clause that holds it, or
  \<open>default\<close>. \<open>switch_case\<close> is the clause chosen (\<open>None\<close>: \<open>default\<close>); the clauses are
  named after the kind of value they print.
\<close>

datatype category =
    Integer | Float | Decimal | Date | DateTime | Timestamp | Time | Year
  | Text | Binary | EnumOrSet | Boolean | Json

definition switch_case :: "string \<Rightarrow> category option" where
  "switch_case Type =
     (if Type \<in> set [''TINYINT'', ''SMALLINT'', ''MEDIUMINT'', ''INT'', ''INTEGER'', ''BIGINT'']
      then Some Integer
      else if Type \<in> set [''FLOAT'', ''DOUBLE''] then Some Float
      else if Type \<in> set [''DECIMAL'', ''DEC''] then Some Decimal
      else if Type = ''DATE'' then Some Date
      else if Type = ''DATETIME'' then Some DateTime
      else if Type = ''TIMESTAMP'' then Some Timestamp
      else if Type = ''TIME'' then Some Time
      else if Type = ''YEAR'' then Some Year
      else if Type \<in> set [''CHAR'', ''VARCHAR'', ''TINYTEXT'', ''TEXT'', ''MEDIUMTEXT'', ''LONGTEXT'']
      then Some Text
      else if Type \<in> set [''BIT'', ''BINARY'', ''VARBINARY'', ''TINYBLOB'', ''BLOB'', ''MEDIUMBLOB'',
                         ''LONGBLOB'']
      then Some Binary
      else if Type \<in> set [''ENUM'', ''SET''] then Some EnumOrSet
      else if Type \<in> set [''BOOL'', ''BOOLEAN''] then Some Boolean
      else if Type = ''JSON'' then Some Json
      else None)"

text \<open>
  Lines 310-383 for a value that is not \<open>nil\<close>: the text the chosen clause appends to
  \<open>ssql\<close>, or the way it leaves \<open>writeTableData\<close>. \<open>err\<close> is the variable \<open>err\<close> of
  writeTableData, which the \<open>return err\<close> of lines 334, 341, 348, 355 and 362 return;
  \<open>col.(bool)\<close> of line 372 panics on a value that is not a \<open>bool\<close>.
\<close>

definition render_value :: "fmtlib \<Rightarrow> error \<Rightarrow> string \<Rightarrow> cell \<Rightarrow> string step" where
  "render_value lib err name col =
     (let Type = normalize_Type name in
      case switch_case Type of
        Some Integer \<Rightarrow>
          (case col of VBytes bs \<Rightarrow> Continue bs | _ \<Rightarrow> Continue (Sprintf_d lib col))
      | Some Float \<Rightarrow>
          (case col of VBytes bs \<Rightarrow> Continue bs | _ \<Rightarrow> Continue (Sprintf_f lib col))
      | Some Decimal \<Rightarrow> Continue (Sprintf_s lib col)
      | Some Date \<Rightarrow>
          (case col of VTime t \<Rightarrow> Continue (quoted (Format_date t)) | _ \<Rightarrow> Return err)
      | Some DateTime \<Rightarrow>
          (case col of VTime t \<Rightarrow> Continue (quoted (Format_datetime t)) | _ \<Rightarrow> Return err)
      | Some Timestamp \<Rightarrow>
          (case col of VTime t \<Rightarrow> Continue (quoted (Format_datetime t)) | _ \<Rightarrow> Return err)
      | Some Time \<Rightarrow>
          (case col of VBytes t \<Rightarrow> Continue (quoted t) | _ \<Rightarrow> Return err)
      | Some Year \<Rightarrow>
          (case col of VBytes t \<Rightarrow> Continue t | _ \<Rightarrow> Return err)
      | Some Text \<Rightarrow>
          Continue (quoted (strings_Replace (Sprintf_s lib col) [CHR 0x27] [CHR 0x27, CHR 0x27] (- 1)))
      | Some Binary \<Rightarrow> Continue (''0x'' @ Sprintf_X lib col)
      | Some EnumOrSet \<Rightarrow> Continue (quoted (Sprintf_s lib col))
      | Some Boolean \<Rightarrow>
          (case col of VBool b \<Rightarrow> Continue (if b then ''true'' else ''false'') | _ \<Rightarrow> Panic)
      | Some Json \<Rightarrow> Continue (quoted (Sprintf_s lib col))
      | None \<Rightarrow> Return (Some (UnsupportedType Type)))"

subsection \<open>One row: lines 306-388\<close>

text \<open>
  The body of \<open>for i, col := range row\<close> up to line 384 is \<open>render_cell\<close>: \<open>nil\<close> is
  tested first (line 307), then \<open>columnTypes[i]\<close> is read (an index out of range
  panics). In the loop, \<open>n = len(row)\<close>, and a comma follows every value but the last
  (\<open>i < len(row)-1\<close>; the loop runs only when \<open>0 < n\<close>).
\<close>

definition render_cell :: "fmtlib \<Rightarrow> error \<Rightarrow> string list \<Rightarrow> nat \<Rightarrow> cell \<Rightarrow> string step" where
  "render_cell lib err columnTypes i col =
     (if col = VNil then Continue ''NULL''
      else if i < length columnTypes then render_value lib err (columnTypes ! i) col
      else Panic)"

fun render_row ::
  "fmtlib \<Rightarrow> error \<Rightarrow> string list \<Rightarrow> nat \<Rightarrow> nat \<Rightarrow> cell list \<Rightarrow> string \<Rightarrow> string step" where
  "render_row lib err columnTypes n i [] ssql = Continue ssql"
| "render_row lib err columnTypes n i (col # rest) ssql =
     (case render_cell lib err columnTypes i col of
        Continue lit \<Rightarrow>
          render_row lib err columnTypes n (i + 1) rest
            (ssql @ lit @ (if i < n - 1 then '','' else []))
      | Return e \<Rightarrow> Return e
      | Panic \<Rightarrow> Panic)"

subsection \<open>All rows: lines 299-391\<close>

definition insert_head :: "bool \<Rightarrow> string \<Rightarrow> string" where
  "insert_head ignoreInsert table =
     (if ignoreInsert then ''INSERT IGNORE INTO `'' @ table @ ''` VALUES (''
      else ''INSERT INTO `'' @ table @ ''` VALUES ('')"

fun write_rows ::
  "fmtlib \<Rightarrow> error \<Rightarrow> string \<Rightarrow> bool \<Rightarrow> string list \<Rightarrow> cell list list \<Rightarrow> string
     \<Rightarrow> string \<times> unit step" where
  "write_rows lib err table ignoreInsert columnTypes [] buf = (buf, Continue ())"
| "write_rows lib err table ignoreInsert columnTypes (row # rows) buf =
     (case render_row lib err columnTypes (length row) 0 row (insert_head ignoreInsert table) of
        Continue ssql \<Rightarrow>
          write_rows lib err table ignoreInsert columnTypes rows (buf @ ssql @ '');\<newline>'')
      | Return e \<Rightarrow> (buf, Return e)
      | Panic \<Rightarrow> (buf, Panic))"

subsection \<open>Reading the rows: lines 284-297\<close>

text \<open>
  \<open>for lineRows.Next()\<close>: every row is scanned into \<open>len(columns)\<close> destinations and
  appended to \<open>values\<close>. The result is the error that line 294 returns, or the value of
  the variable \<open>err\<close> after the loop together with \<open>values\<close>.
\<close>

fun scan_rows ::
  "nat \<Rightarrow> error \<Rightarrow> (goerror + cell list) list \<Rightarrow> cell list list
     \<Rightarrow> goerror + error \<times> cell list list" where
  "scan_rows ncols err [] values = Inr (err, values)"
| "scan_rows ncols err (r # rs) values =
     (case Scan ncols r of
        Inl e \<Rightarrow> Inl e
      | Inr row \<Rightarrow> scan_rows ncols None rs (values @ [row]))"

subsection \<open>The function\<close>

text \<open>
  What a call of a function of the program ends with: an error value or a panic. In
  \<open>writeTableData\<close> the variable \<open>err\<close> is \<open>nil\<close> when the rows are read, since
  \<open>Query\<close>, \<open>Columns\<close> and \<open>ColumnTypes\<close> have succeeded; \<open>buf\<close> is the text written so
  far (the writes themselves are taken to succeed, as the code ignores their results).
\<close>

datatype outcome = Returned error | Panicked

definition records_banner :: "string \<Rightarrow> string" where
  "records_banner table =
     ''-- ----------------------------\<newline>'' @ ''-- Records of '' @ table @ ''\<newline>''
     @ ''-- ----------------------------\<newline>''"

definition writeTableData ::
  "fmtlib \<Rightarrow> database \<Rightarrow> string \<Rightarrow> string \<Rightarrow> bool \<Rightarrow> string \<times> outcome" where
  "writeTableData lib db table buf0 ignoreInsert =
     (let buf = buf0 @ records_banner table in
      case Query_SELECT db table of
        Inl e \<Rightarrow> (buf, Returned (Some e))
      | Inr lineRows \<Rightarrow>
          (case rs_Columns lineRows of
             Inl e \<Rightarrow> (buf, Returned (Some e))
           | Inr columns \<Rightarrow>
               (case rs_ColumnTypes lineRows of
                  Inl e \<Rightarrow> (buf, Returned (Some e))
                | Inr columnTypes \<Rightarrow>
                    (case scan_rows (length columns) None (rs_Next lineRows) [] of
                       Inl e \<Rightarrow> (buf, Returned (Some e))
                     | Inr (err, values) \<Rightarrow>
                         (case write_rows lib err table ignoreInsert columnTypes values buf of
                            (buf', Continue u) \<Rightarrow> (buf' @ ''\<newline>\<newline>'', Returned None)
                          | (buf', Return e) \<Rightarrow> (buf', Returned e)
                          | (buf', Panic) \<Rightarrow> (buf', Panicked))))))"

section \<open>The table structure: lines 207-254\<close>

definition getCreateTableSQL :: "database \<Rightarrow> string \<Rightarrow> goerror + string" where
  "getCreateTableSQL db table =
     (case QueryRow_SHOW_CREATE_TABLE db table of
        Inl e \<Rightarrow> Inl e
      | Inr createTableSQL \<Rightarrow>
          Inr (strings_Replace createTableSQL ''CREATE TABLE'' ''CREATE TABLE IF NOT EXISTS'' 1))"

definition writeTableStruct :: "database \<Rightarrow> string \<Rightarrow> string \<Rightarrow> string \<times> error" where
  "writeTableStruct db table buf0 =
     (let buf = buf0 @ ''-- ----------------------------\<newline>''
                @ ''-- Table structure for '' @ table @ ''\<newline>''
                @ ''-- ----------------------------\<newline>'' in
      case getCreateTableSQL db table of
        Inl e \<Rightarrow> (buf, Some e)
      | Inr createTableSQL \<Rightarrow>
          (buf @ createTableSQL @ '';'' @ ''\<newline>\<newline>'' @ ''\<newline>\<newline>'', None))"

section \<open>Dump (lines 88-205)\<close>

subsection \<open>The options: lines 20-86\<close>

text \<open>The field \<open>writer\<close> is left out: the model returns the text written to it.\<close>

record dumpOption =
  isData :: bool
  tables :: "string list"
  ignoreTables :: "string list"
  isAllTable :: bool
  isDropTable :: bool
  isIgnoreInsert :: bool

type_synonym DumpOption = "dumpOption \<Rightarrow> dumpOption"

definition zero_dumpOption :: dumpOption where
  "zero_dumpOption =
     \<lparr>isData = False, tables = [], ignoreTables = [], isAllTable = False,
      isDropTable = False, isIgnoreInsert = False\<rparr>"

definition WithDropTable :: DumpOption where
  "WithDropTable option = option\<lparr>isDropTable := True\<rparr>"

definition WithData :: DumpOption where
  "WithData option = option\<lparr>isData := True\<rparr>"

definition WithIgnoreInsertTable :: DumpOption where
  "WithIgnoreInsertTable option = option\<lparr>isIgnoreInsert := True\<rparr>"

definition WithIgnoreTables :: "string list \<Rightarrow> DumpOption" where
  "WithIgnoreTables ts option = option\<lparr>ignoreTables := ts\<rparr>"

definition WithTables :: "string list \<Rightarrow> DumpOption" where
  "WithTables ts option = option\<lparr>tables := ts\<rparr>"

definition WithAllTable :: DumpOption where
  "WithAllTable option = option\<lparr>isAllTable := True\<rparr>"

text \<open>Lines 100-109: the options applied in order to the zero value, then the default.\<close>

definition apply_opts :: "DumpOption list \<Rightarrow> dumpOption" where
  "apply_opts opts = fold (\<lambda>opt d. opt d) opts zero_dumpOption"

definition Dump_options :: "DumpOption list \<Rightarrow> dumpOption" where
  "Dump_options opts =
     (let d = apply_opts opts
      in if length (tables d) = 0 then d\<lparr>isAllTable := True\<rparr> else d)"

subsection \<open>The tables: lines 146-172 and getAllTables (lines 218-235)\<close>

fun scan_tables :: "(goerror + string) list \<Rightarrow> string list \<Rightarrow> goerror + string list" where
  "scan_tables [] tabs = Inr tabs"
| "scan_tables (r # rs) tabs =
     (case r of Inl e \<Rightarrow> Inl e | Inr table \<Rightarrow> scan_tables rs (tabs @ [table]))"

definition getAllTables :: "database \<Rightarrow> goerror + string list" where
  "getAllTables db =
     (case Query_SHOW_TABLES db of
        Inl e \<Rightarrow> Inl e
      | Inr rows \<Rightarrow> scan_tables rows [])"

text \<open>
  \<open>bMap\<close> is the Go map of lines 156-159; reading a key it does not hold gives
  \<open>false\<close>.
\<close>

definition select_tables :: "database \<Rightarrow> dumpOption \<Rightarrow> goerror + string list" where
  "select_tables db d =
     (if isAllTable d then
        (case getAllTables db of
           Inl e \<Rightarrow> Inl e
         | Inr tmp \<Rightarrow>
             if 0 < length (ignoreTables d) then
               (let bMap = fold (\<lambda>elementB m. m(elementB \<mapsto> True)) (ignoreTables d) Map.empty
                in Inr (filter (\<lambda>elementA. \<not> (case bMap elementA of None \<Rightarrow> False | Some b \<Rightarrow> b)) tmp))
             else Inr tmp)
      else Inr (tables d))"

subsection \<open>The loop over the tables: lines 175-196\<close>

text \<open>Lines 177-179.\<close>

definition write_drop :: "dumpOption \<Rightarrow> string \<Rightarrow> string \<Rightarrow> string" where
  "write_drop d table buf =
     (if isDropTable d then buf @ ''DROP TABLE IF EXISTS `'' @ table @ ''`;\<newline>'' else buf)"

fun dump_tables ::
  "fmtlib \<Rightarrow> database \<Rightarrow> dumpOption \<Rightarrow> string list \<Rightarrow> string \<Rightarrow> string \<times> unit step" where
  "dump_tables lib db d [] buf = (buf, Continue ())"
| "dump_tables lib db d (table # rest) buf =
     (let buf1 = write_drop d table buf in
      case writeTableStruct db table buf1 of
        (buf2, Some e) \<Rightarrow> (buf2, Return (Some e))
      | (buf2, None) \<Rightarrow>
          if isData d then
            (case writeTableData lib db table buf2 (isIgnoreInsert d) of
               (buf3, Returned (Some e)) \<Rightarrow> (buf3, Return (Some e))
             | (buf3, Returned None) \<Rightarrow> dump_tables lib db d rest buf3
             | (buf3, Panicked) \<Rightarrow> (buf3, Panic))
          else dump_tables lib db d rest buf2)"

subsection \<open>The function\<close>

text \<open>
  \<open>start\<close> and \<open>cost\<close> are the two texts read from the clock: the start time as line
  122 formats it and the duration of line 201. The result is the text that reached
  the writer (the deferred \<open>Flush\<close> runs on every way out) and how the call ended.
\<close>

definition dump_header :: "string \<Rightarrow> string" where
  "dump_header start =
     ''-- ----------------------------\<newline>'' @ ''-- MySQL Database Dump\<newline>''
     @ ''-- Start Time: '' @ start @ ''\<newline>'' @ ''-- ----------------------------\<newline>''
     @ ''\<newline>\<newline>''"

definition dump_footer :: "string \<Rightarrow> string" where
  "dump_footer cost =
     ''-- ----------------------------\<newline>'' @ ''-- Dumped by mysqldump\<newline>''
     @ ''-- Cost Time: '' @ cost @ ''\<newline>'' @ ''-- ----------------------------\<newline>''"

definition Dump ::
  "fmtlib \<Rightarrow> string \<Rightarrow> string \<Rightarrow> database \<Rightarrow> DumpOption list \<Rightarrow> string \<times> outcome" where
  "Dump lib start cost db opts =
     (let d = Dump_options opts; buf = dump_header start in
      case sql_Open db of
        Some e \<Rightarrow> (buf, Returned (Some e))
      | None \<Rightarrow>
          (case GetDBNameFromDSN db of
             Inl e \<Rightarrow> (buf, Returned (Some e))
           | Inr dbName \<Rightarrow>
               (case Exec_USE db dbName of
                  Some e \<Rightarrow> (buf, Returned (Some e))
                | None \<Rightarrow>
                    (case select_tables db d of
                       Inl e \<Rightarrow> (buf, Returned (Some e))
                     | Inr tabs \<Rightarrow>
                         (case dump_tables lib db d tabs buf of
                            (buf', Continue u) \<Rightarrow> (buf' @ dump_footer cost, Returned None)
                          | (buf', Return e) \<Rightarrow> (buf', Returned e)
                          | (buf', Panic) \<Rightarrow> (buf', Panicked))))))"

section \<open>Notions the properties are stated with\<close>

text \<open>
  The text of a cell in a statement, in the words of the specification: the bare word
  \<open>NULL\<close> for a null, else what the clause of the column's type prints. \<open>cell_ok\<close> says
  that the cell at position \<open>i\<close> gets a text at all (its clause neither returns nor
  panics).
\<close>

definition cell_text :: "fmtlib \<Rightarrow> string list \<Rightarrow> nat \<times> cell \<Rightarrow> string" where
  "cell_text lib tys ic =
     (if snd ic = VNil then ''NULL''
      else case render_value lib None (tys ! fst ic) (snd ic) of
             Continue s \<Rightarrow> s | Return e \<Rightarrow> [] | Panic \<Rightarrow> [])"

definition cell_ok :: "fmtlib \<Rightarrow> string list \<Rightarrow> nat \<times> cell \<Rightarrow> bool" where
  "cell_ok lib tys ic =
     (snd ic = VNil \<or>
      (fst ic < length tys \<and>
       (case render_value lib None (tys ! fst ic) (snd ic) of
          Continue s \<Rightarrow> True | Return e \<Rightarrow> False | Panic \<Rightarrow> False)))"

definition row_ok :: "fmtlib \<Rightarrow> string list \<Rightarrow> cell list \<Rightarrow> bool" where
  "row_ok lib tys row = list_all (cell_ok lib tys) (enumerate 0 row)"

text \<open>Texts joined by commas, with no comma after the last.\<close>

fun commas :: "string list \<Rightarrow> string" where
  "commas [] = []"
| "commas [x] = x"
| "commas (x # y # ys) = x @ '','' @ commas (y # ys)"

text \<open>
  The statement of a row as the specification writes it:
  \<open>INSERT [IGNORE] INTO `<table>` VALUES (<v1>,...,<vn>);\<close> and a newline.
\<close>

definition insert_statement ::
  "fmtlib \<Rightarrow> bool \<Rightarrow> string \<Rightarrow> string list \<Rightarrow> cell list \<Rightarrow> string" where
  "insert_statement lib ignoreInsert table tys row =
     (if ignoreInsert then ''INSERT IGNORE INTO `'' else ''INSERT INTO `'') @ table
     @ ''` VALUES ('' @ commas (map (cell_text lib tys) (enumerate 0 row)) @ '');\<newline>''"

subsection \<open>The rendering rules in the words of the specification\<close>

text \<open>
  Sections 4.1 to 4.3 of the specification, written down without the code: the table
  of type names and categories, the literal of a value for each category, and the
  statement of a row. They are what \<open>writeTableData\<close> is compared with.

  The table of section 4.1. The reported name is looked up as it is, or without the
  qualifier \<open>UNSIGNED\<close> and the space that the driver puts in front of it.
\<close>

definition category_table :: "(string \<times> category) list" where
  "category_table =
     [(''TINYINT'', Integer), (''SMALLINT'', Integer), (''MEDIUMINT'', Integer), (''INT'', Integer),
      (''INTEGER'', Integer), (''BIGINT'', Integer),
      (''FLOAT'', Float), (''DOUBLE'', Float),
      (''DECIMAL'', Decimal), (''DEC'', Decimal),
      (''DATE'', Date), (''DATETIME'', DateTime), (''TIMESTAMP'', Timestamp),
      (''TIME'', Time), (''YEAR'', Year),
      (''CHAR'', Text), (''VARCHAR'', Text), (''TINYTEXT'', Text), (''TEXT'', Text),
      (''MEDIUMTEXT'', Text), (''LONGTEXT'', Text),
      (''BIT'', Binary), (''BINARY'', Binary), (''VARBINARY'', Binary), (''TINYBLOB'', Binary),
      (''BLOB'', Binary), (''MEDIUMBLOB'', Binary), (''LONGBLOB'', Binary),
      (''ENUM'', EnumOrSet), (''SET'', EnumOrSet),
      (''BOOL'', Boolean), (''BOOLEAN'', Boolean),
      (''JSON'', Json)]"

definition spec_category :: "string \<Rightarrow> category option" where
  "spec_category name =
     map_of category_table (if take 9 name = ''UNSIGNED '' then drop 9 name else name)"

text \<open>
  The rules of section 4.2, one for each category and kind of value; \<open>None\<close> where the
  specification has no literal for the value (a conversion error, or a kind of value
  that the rule does not speak of). A float is a finite number.
\<close>

definition spec_quote :: "string \<Rightarrow> string" where
  "spec_quote s = [CHR 0x27] @ s @ [CHR 0x27]"

definition spec_escape :: "string \<Rightarrow> string" where
  "spec_escape s = concat (map (\<lambda>c. if c = CHR 0x27 then [CHR 0x27, CHR 0x27] else [c]) s)"

definition spec_literal :: "category \<Rightarrow> cell \<Rightarrow> string option" where
  "spec_literal cat col =
     (case cat of
        Integer \<Rightarrow>
          (case col of
             VBytes bs \<Rightarrow> Some bs
           | VInt64 w \<Rightarrow> Some (fmt_d (sint w))
           | VUint64 w \<Rightarrow> Some (fmt_d (uint w))
           | _ \<Rightarrow> None)
      | Float \<Rightarrow>
          (case col of
             VBytes bs \<Rightarrow> Some bs
           | VFloat x \<Rightarrow> (case x of FFinite neg m e \<Rightarrow> Some (fmt_f x) | _ \<Rightarrow> None)
           | _ \<Rightarrow> None)
      | Decimal \<Rightarrow> (case col of VBytes bs \<Rightarrow> Some bs | VString s \<Rightarrow> Some s | _ \<Rightarrow> None)
      | Date \<Rightarrow> (case col of VTime t \<Rightarrow> Some (spec_quote (Format_date t)) | _ \<Rightarrow> None)
      | DateTime \<Rightarrow> (case col of VTime t \<Rightarrow> Some (spec_quote (Format_datetime t)) | _ \<Rightarrow> None)
      | Timestamp \<Rightarrow> (case col of VTime t \<Rightarrow> Some (spec_quote (Format_datetime t)) | _ \<Rightarrow> None)
      | Time \<Rightarrow> (case col of VBytes bs \<Rightarrow> Some (spec_quote bs) | _ \<Rightarrow> None)
      | Year \<Rightarrow> (case col of VBytes bs \<Rightarrow> Some bs | _ \<Rightarrow> None)
      | Text \<Rightarrow>
          (case col of
             VBytes bs \<Rightarrow> Some (spec_quote (spec_escape bs))
           | VString s \<Rightarrow> Some (spec_quote (spec_escape s))
           | _ \<Rightarrow> None)
      | Binary \<Rightarrow> (case col of VBytes bs \<Rightarrow> Some (''0x'' @ fmt_X bs) | _ \<Rightarrow> None)
      | EnumOrSet \<Rightarrow>
          (case col of
             VBytes bs \<Rightarrow> Some (spec_quote bs)
           | VString s \<Rightarrow> Some (spec_quote s)
           | _ \<Rightarrow> None)
      | Boolean \<Rightarrow> (case col of VBool b \<Rightarrow> Some (if b then ''true'' else ''false'') | _ \<Rightarrow> None)
      | Json \<Rightarrow>
          (case col of
             VBytes bs \<Rightarrow> Some (spec_quote bs)
           | VString s \<Rightarrow> Some (spec_quote s)
           | _ \<Rightarrow> None))"

text \<open>
  Section 4.3: a null is the bare word \<open>NULL\<close>, whatever its column; any other value
  is classified by its column and rendered; the values of a row, one for each column,
  are joined by commas inside \<open>INSERT [IGNORE] INTO `<table>` VALUES (...);\<close> and a
  newline; the flag is the same for every row of the table.
\<close>

definition spec_cell :: "string \<Rightarrow> cell \<Rightarrow> string option" where
  "spec_cell name col =
     (if col = VNil then Some ''NULL''
      else case spec_category name of None \<Rightarrow> None | Some cat \<Rightarrow> spec_literal cat col)"

fun spec_cells :: "string list \<Rightarrow> cell list \<Rightarrow> string list option" where
  "spec_cells [] [] = Some []"
| "spec_cells (name # names) (col # row) =
     (case spec_cell name col of
        None \<Rightarrow> None
      | Some v \<Rightarrow> (case spec_cells names row of None \<Rightarrow> None | Some vs \<Rightarrow> Some (v # vs)))"
| "spec_cells names row = None"

definition spec_statement :: "bool \<Rightarrow> string \<Rightarrow> string list \<Rightarrow> cell list \<Rightarrow> string option" where
  "spec_statement ignoreDuplicates table names row =
     (case spec_cells names row of
        None \<Rightarrow> None
      | Some vs \<Rightarrow>
          Some ((if ignoreDuplicates then ''INSERT IGNORE INTO `'' else ''INSERT INTO `'') @ table
                @ ''` VALUES ('' @ commas vs @ '');\<newline>''))"

fun spec_statements ::
  "bool \<Rightarrow> string \<Rightarrow> string list \<Rightarrow> cell list list \<Rightarrow> string list option" where
  "spec_statements ignoreDuplicates table names [] = Some []"
| "spec_statements ignoreDuplicates table names (row # rows) =
     (case spec_statement ignoreDuplicates table names row of
        None \<Rightarrow> None
      | Some st \<Rightarrow>
          (case spec_statements ignoreDuplicates table names rows of
             None \<Rightarrow> None
           | Some sts \<Rightarrow> Some (st # sts)))"

text \<open>\<open>old\<close> stands in \<open>s\<close> at position \<open>i\<close>.\<close>

definition occurs_at :: "string \<Rightarrow> nat \<Rightarrow> string \<Rightarrow> bool" where
  "occurs_at old i s = (take (length old) (drop i s) = old)"

text \<open>
  The query \<open>SELECT * FROM `table`\<close> succeeds and reads the columns \<open>cols\<close> with the type
  names \<open>tys\<close> and the rows \<open>rows\<close>: no call fails, and database/sql gives one type and,
  in every row, one value for each column.
\<close>

definition table_reads ::
  "database \<Rightarrow> string \<Rightarrow> string list \<Rightarrow> string list \<Rightarrow> cell list list \<Rightarrow> bool" where
  "table_reads db table cols tys rows =
     (case Query_SELECT db table of
        Inl e \<Rightarrow> False
      | Inr rs \<Rightarrow>
          rs_Columns rs = Inr cols \<and> rs_ColumnTypes rs = Inr tys \<and> rs_Next rs = map Inr rows
          \<and> length tys = length cols \<and> list_all (\<lambda>row. length row = length cols) rows)"

text \<open>Lines 127-144 succeed: the connection opens and the database is selected.\<close>

definition connects :: "database \<Rightarrow> bool" where
  "connects db =
     (sql_Open db = None \<and>
      (case GetDBNameFromDSN db of Inl e \<Rightarrow> False | Inr dbName \<Rightarrow> Exec_USE db dbName = None))"

text \<open>
  The number a decimal text denotes (an optional minus sign, digits, and optionally a
  point and more digits) and the number a finite float is: a byte sequence and a
  native number are two forms of one logical value when these agree.
\<close>

fun digits_value :: "string \<Rightarrow> nat \<Rightarrow> nat option" where
  "digits_value [] acc = Some acc"
| "digits_value (c # cs) acc =
     (if c \<in> set ''0123456789'' then digits_value cs (10 * acc + (of_char c - 48)) else None)"

definition decimal_value :: "string \<Rightarrow> rat option" where
  "decimal_value s =
     (let neg = (s \<noteq> [] \<and> hd s = CHR ''-'');
          body = (if neg then tl s else s);
          ip = takeWhile (\<lambda>c. c \<noteq> CHR ''.'') body;
          fp = drop (length ip + 1) body
      in if ip = [] then None
         else case (digits_value ip 0, digits_value fp 0) of
                (Some a, Some b) \<Rightarrow>
                  Some ((if neg then - 1 else 1) * (of_nat a + of_nat b / 10 ^ length fp))
              | _ \<Rightarrow> None)"

definition float_value :: "gofloat \<Rightarrow> rat option" where
  "float_value x =
     (case x of
        FNaN \<Rightarrow> None
      | FInf neg \<Rightarrow> None
      | FFinite neg m e \<Rightarrow>
          Some ((if neg then - 1 else 1) * of_nat m
                * (if 0 \<le> e then 2 ^ nat e else 1 / 2 ^ nat (- e))))"

text \<open>A text that ends with a point and exactly six digits, with something before.\<close>

definition six_decimals :: "string \<Rightarrow> bool" where
  "six_decimals t =
     (7 < length t \<and> t ! (length t - 7) = CHR ''.''
      \<and> list_all (\<lambda>c. c \<in> set ''0123456789'') (drop (length t - 6) t))"

subsection \<open>Databases for the examples\<close>

text \<open>
  A result set from its columns (name and type name) and rows, and a database from
  its tables (name, structure statement, content) that answers every query and fails
  only for a table it does not have.
\<close>

definition table_of :: "(string \<times> string) list \<Rightarrow> cell list list \<Rightarrow> rowset" where
  "table_of cols rows =
     \<lparr>rs_Columns = Inr (map fst cols), rs_ColumnTypes = Inr (map snd cols),
      rs_Next = map Inr rows\<rparr>"

definition database_of :: "(string \<times> string \<times> rowset) list \<Rightarrow> database" where
  "database_of tabs =
     \<lparr>sql_Open = None, GetDBNameFromDSN = Inr ''test'', Exec_USE = (\<lambda>dbName. None),
      Query_SHOW_TABLES = Inr (map (\<lambda>t. Inr (fst t)) tabs),
      QueryRow_SHOW_CREATE_TABLE =
        (\<lambda>table. case map_of tabs table of
                    None \<Rightarrow> Inl (DriverError ''Error 1146'')
                  | Some cr \<Rightarrow> Inr (fst cr)),
      Query_SELECT =
        (\<lambda>table. case map_of tabs table of
                    None \<Rightarrow> Inl (DriverError ''Error 1146'')
                  | Some cr \<Rightarrow> Inr (snd cr))\<rparr>"

text \<open>The table \<open>t(id INT, name VARCHAR(10))\<close> of the specification's scenarios.\<close>

definition people :: rowset where
  "people =
     table_of [(''id'', ''INT''), (''name'', ''VARCHAR'')]
       [[VInt64 1, VString (''O'' @ [CHR 0x27] @ ''Brien'')], [VNil, VString ''x'']]"

text \<open>A table with a column of a type that no clause of the switch names.\<close>

definition shapes :: rowset where
  "shapes =
     table_of [(''id'', ''INT''), (''shape'', ''GEOMETRY'')]
       [[VInt64 1, VNil], [VInt64 2, VBytes ''xx'']]"

definition shop :: database where
  "shop =
     database_of
       [(''t'', ''CREATE TABLE `t` (`id` int, `name` varchar(10))'', people),
        (''g'', ''CREATE TABLE `g` (`id` int, `shape` geometry)'', shapes),
        (''u'', ''CREATE TABLE `u` (`id` int)'', table_of [(''id'', ''INT'')] [])]"

text \<open>
  A structure statement with a comment in front and the text \<open>CREATE TABLE\<close> once
  more in a comment behind.
\<close>

definition commented :: database where
  "commented =
     database_of
       [(''t'', ''/* CREATE */ CREATE TABLE `t` (`c` int) /* CREATE TABLE */'',
         table_of [(''c'', ''INT'')] [])]"

text \<open>
  A table whose \<open>DATE\<close> column arrives as a \<open>time.Time\<close> in the first and third row
  and as the bytes of the text in the second (what the driver delivers when it is not
  asked to parse times), in a database with one more table.
\<close>

definition events :: rowset where
  "events =
     table_of [(''day'', ''DATE''), (''what'', ''VARCHAR'')]
       [[VTime \<lparr>year = 2024, month = 1, day = 2, hour = 0, minute = 0, second = 0\<rparr>,
         VString ''a''],
        [VBytes ''2024-01-03'', VString ''b''],
        [VTime \<lparr>year = 2024, month = 1, day = 4, hour = 0, minute = 0, second = 0\<rparr>,
         VString ''c'']]"

definition diary :: database where
  "diary =
     database_of
       [(''e'', ''CREATE TABLE `e` (`day` date, `what` varchar(10))'', events),
        (''u'', ''CREATE TABLE `u` (`id` int)'', table_of [(''id'', ''INT'')] [[VInt64 7]])]"

text \<open>
  A table with a column for every clause of the switch (the first with the qualifier
  \<open>UNSIGNED\<close>), a row with a value of the expected kind in each, and a row of nulls
  around an integer delivered as bytes and a boolean.
\<close>

definition samples :: rowset where
  "samples =
     table_of
       [(''id'', ''UNSIGNED BIGINT''), (''price'', ''DOUBLE''), (''amount'', ''DECIMAL''),
        (''born'', ''DATE''), (''seen'', ''DATETIME''), (''stamp'', ''TIMESTAMP''),
        (''at'', ''TIME''), (''yr'', ''YEAR''), (''name'', ''VARCHAR''), (''photo'', ''BLOB''),
        (''kind'', ''ENUM''), (''ok'', ''BOOL''), (''doc'', ''JSON'')]
       [[VUint64 18446744073709551615, VFloat (FFinite False 3 (- 1)), VBytes ''12.50'',
         VTime \<lparr>year = 2024, month = 11, day = 2, hour = 3, minute = 4, second = 5\<rparr>,
         VTime \<lparr>year = 2024, month = 11, day = 2, hour = 3, minute = 4, second = 5\<rparr>,
         VTime \<lparr>year = 2024, month = 11, day = 2, hour = 3, minute = 4, second = 5\<rparr>,
         VBytes ''03:04:05'', VBytes ''2024'', VString (''O'' @ [CHR 0x27] @ ''Brien''),
         VBytes ''a~'', VBytes ''red'', VBool True, VBytes ''{}''],
        [VBytes ''7'', VNil, VNil, VNil, VNil, VNil, VNil, VNil, VNil, VNil, VNil, VBool False,
         VNil]]"

definition warehouse :: database where
  "warehouse = database_of [(''s'', ''CREATE TABLE `s` (`id` bigint unsigned)'', samples)]"

text \<open>\<open>fmt.Sprintf\<close> for the examples, which use none of the pairs left to it.\<close>

definition no_lib :: fmtlib where
  "no_lib v c = []"

section \<open>Lemmas about strings.Replace\<close>

lemma strings_Replace_zero: "strings_Replace s old new 0 = s"
  by (induction s) (simp_all add: strings_Replace.simps(2))

lemma strings_Replace_head:
  "old \<noteq> [] \<Longrightarrow> n \<noteq> 0 \<Longrightarrow>
   strings_Replace (old @ post) old new n
     = new @ strings_Replace post old new (if n < 0 then n else n - 1)"
  by (cases old) (simp_all add: strings_Replace.simps(2))

lemma strings_Replace_no_head:
  "old \<noteq> [] \<Longrightarrow> hd old \<notin> set s \<Longrightarrow> strings_Replace s old new n = s"
proof (induction s)
  case Nil
  then show ?case by simp
next
  case (Cons c s)
  then have "take (length old) (c # s) \<noteq> old"
    by (cases old) auto
  with Cons show ?case by (simp add: strings_Replace.simps(2))
qed

lemma strings_Replace_char:
  "strings_Replace s [q] new (- 1) = concat (map (\<lambda>c. if c = q then new else [c]) s)"
  by (induction s) (simp_all add: strings_Replace.simps(2))

lemma strings_Replace_first:
  "old \<noteq> [] \<Longrightarrow> \<forall>i<length pre. \<not> occurs_at old i (pre @ old @ post) \<Longrightarrow>
   strings_Replace (pre @ old @ post) old new 1 = pre @ new @ post"
proof (induction pre)
  case Nil
  then show ?case by (simp add: strings_Replace_head strings_Replace_zero)
next
  case (Cons c pre)
  from Cons.prems(2) have "\<not> occurs_at old 0 ((c # pre) @ old @ post)" by auto
  then have no: "take (length old) (c # pre @ old @ post) \<noteq> old"
    by (simp add: occurs_at_def)
  have "\<forall>i<length pre. \<not> occurs_at old i (pre @ old @ post)"
  proof (intro allI impI)
    fix i assume "i < length pre"
    then have "\<not> occurs_at old (Suc i) ((c # pre) @ old @ post)"
      using Cons.prems(2) by auto
    then show "\<not> occurs_at old i (pre @ old @ post)" by (simp add: occurs_at_def)
  qed
  with Cons have "strings_Replace (pre @ old @ post) old new 1 = pre @ new @ post" by blast
  with no show ?case by (simp add: strings_Replace.simps(2))
qed

section \<open>Lemmas about the digits of a number\<close>

text \<open>The two cases of \<open>digits10\<close>, as rules that apply only where the case is known.\<close>

lemma digits10_small: "n < 10 \<Longrightarrow> digits10 n = [digit_char n]"
  by (subst digits10.simps) simp

lemma digits10_large: "10 \<le> n \<Longrightarrow> digits10 n = digits10 (n div 10) @ [digit_char (n mod 10)]"
  by (subst digits10.simps) simp

lemma digit_char_cases:
  "d < 10 \<Longrightarrow> digit_char d \<in> set ''0123456789'' \<and> of_char (digit_char d) - 48 = d"
proof -
  assume "d < 10"
  then have "d = 0 \<or> d = 1 \<or> d = 2 \<or> d = 3 \<or> d = 4 \<or> d = 5 \<or> d = 6 \<or> d = 7
    \<or> d = 8 \<or> d = 9" by arith
  then show ?thesis by (elim disjE) (simp_all add: digit_char_def)
qed

lemma digits10_set: "set (digits10 n) \<subseteq> set ''0123456789''"
proof (induction n rule: digits10.induct)
  case (1 n)
  show ?case
  proof (cases "n < 10")
    case True
    then show ?thesis using digit_char_cases [of n] by (subst digits10.simps) simp
  next
    case False
    with 1 digit_char_cases [of "n mod 10"] show ?thesis
      by (subst digits10.simps) simp
  qed
qed

lemma digits10_nonempty: "digits10 n \<noteq> []"
  by (subst digits10.simps) simp

lemma digits_value_append:
  "digits_value (xs @ ys) acc
     = (case digits_value xs acc of None \<Rightarrow> None | Some a \<Rightarrow> digits_value ys a)"
  by (induction xs arbitrary: acc) simp_all

lemma digits_value_digits10: "digits_value (digits10 n) 0 = Some n"
proof (induction n rule: digits10.induct)
  case (1 n)
  show ?case
  proof (cases "n < 10")
    case True
    then show ?thesis using digit_char_cases [of n] by (subst digits10.simps) simp
  next
    case False
    with 1 digit_char_cases [of "n mod 10"] show ?thesis
      by (subst digits10.simps) (simp add: digits_value_append)
  qed
qed

lemma length_digits10: "n < 10 ^ k \<Longrightarrow> 0 < k \<Longrightarrow> length (digits10 n) \<le> k"
proof (induction n arbitrary: k rule: digits10.induct)
  case (1 n)
  show ?case
  proof (cases "n < 10")
    case True
    with 1 show ?thesis by (subst digits10.simps) simp
  next
    case False
    from 1(3) obtain j where kj: "k = Suc j" by (cases k) auto
    with 1(2) False have "0 < j" by (cases j) auto
    with kj have j: "k = Suc j" "0 < j" by auto
    with 1(2) have "n div 10 < 10 ^ j" by (simp add: less_mult_imp_div_less mult.commute)
    with 1(1) [OF False this] j False show ?thesis by (subst digits10.simps) simp
  qed
qed

lemma digits10_plain:
  "takeWhile (\<lambda>c. c \<noteq> CHR ''.'') (digits10 n) = digits10 n" "hd (digits10 n) \<noteq> CHR ''-''"
proof -
  have "CHR ''.'' \<notin> set (digits10 n)" and m: "CHR ''-'' \<notin> set (digits10 n)"
    using digits10_set [of n] by auto
  then show "takeWhile (\<lambda>c. c \<noteq> CHR ''.'') (digits10 n) = digits10 n"
    by (auto simp: takeWhile_eq_all_conv)
  from m digits10_nonempty [of n] show "hd (digits10 n) \<noteq> CHR ''-''"
    by (cases "digits10 n") auto
qed

lemma decimal_value_digits10: "decimal_value (digits10 n) = Some (of_nat n)"
  by (simp add: decimal_value_def Let_def digits10_plain digits10_nonempty digits_value_digits10)

lemma decimal_value_fmt_d: "decimal_value (fmt_d i) = Some (of_int i)"
proof (cases "i < 0")
  case False
  then show ?thesis by (simp add: fmt_d_def decimal_value_digits10)
next
  case True
  then show ?thesis
    by (simp add: fmt_d_def decimal_value_def Let_def digits10_plain digits10_nonempty
        digits_value_digits10)
qed

lemma six_decimals_append:
  assumes "a \<noteq> []" and "length fp = 6" and "set fp \<subseteq> set ''0123456789''"
  shows "six_decimals (a @ ''.'' @ fp)"
proof -
  let ?t = "a @ ''.'' @ fp"
  have len: "length ?t = length a + 7" using assms(2) by simp
  have n: "?t ! length a = CHR ''.''" by (simp add: nth_append)
  have d: "drop (Suc (length a)) ?t = fp" by simp
  have l: "list_all (\<lambda>c. c \<in> set ''0123456789'') fp"
    using assms(3) unfolding list_all_iff by blast
  have p: "0 < length a" using assms(1) by simp
  have "7 < length ?t" using len p by arith
  moreover have "?t ! (length ?t - 7) = CHR ''.''" using n len by (simp only: add_diff_cancel_right')
  moreover have "length ?t - 6 = Suc (length a)" using len by arith
  then have "list_all (\<lambda>c. c \<in> set ''0123456789'') (drop (length ?t - 6) ?t)"
    using d l by (simp only:)
  ultimately show ?thesis unfolding six_decimals_def by blast
qed

lemma fmt_f_six_decimals: "six_decimals (fmt_f (FFinite neg m e))"
proof -
  let ?k = "scaled6 m e"
  let ?fp = "pad_zero 6 (digits10 (?k mod 10 ^ 6))"
  have "length (digits10 (?k mod 10 ^ 6)) \<le> 6"
    by (rule length_digits10) simp_all
  then have l: "length ?fp = 6" by (simp add: pad_zero_def)
  have s: "set ?fp \<subseteq> set ''0123456789''"
    using digits10_set [of "?k mod 10 ^ 6"] by (auto simp: pad_zero_def)
  have a: "(if neg then ''-'' else []) @ digits10 (?k div 10 ^ 6) \<noteq> []"
    by (simp add: digits10_nonempty)
  have "fmt_f (FFinite neg m e)
      = ((if neg then ''-'' else []) @ digits10 (?k div 10 ^ 6)) @ ''.'' @ ?fp"
    by (simp add: fmt_f_def Let_def)
  with six_decimals_append [OF a l s] show ?thesis by simp
qed

section \<open>Lemmas about the rows of a table\<close>

lemma render_value_Continue_err:
  "render_value lib err name col = Continue s \<Longrightarrow> render_value lib err' name col = Continue s"
  by (auto simp: render_value_def Let_def split: option.splits category.splits cell.splits)

lemma cell_ok_render:
  assumes "cell_ok lib tys (i, col)"
  shows "render_cell lib err tys i col = Continue (cell_text lib tys (i, col))"
proof (cases "col = VNil")
  case True
  then show ?thesis by (simp add: render_cell_def cell_text_def)
next
  case False
  with assms obtain s where i: "i < length tys"
    and s: "render_value lib None (tys ! i) col = Continue s"
    by (auto simp: cell_ok_def split: step.splits)
  from s have "render_value lib err (tys ! i) col = Continue s"
    by (rule render_value_Continue_err)
  with False i s show ?thesis by (simp add: render_cell_def cell_text_def)
qed

lemma render_row_ok:
  "list_all (cell_ok lib tys) (enumerate i cells) \<Longrightarrow> n = i + length cells \<Longrightarrow>
   render_row lib err tys n i cells ssql
     = Continue (ssql @ commas (map (cell_text lib tys) (enumerate i cells)))"
proof (induction cells arbitrary: i ssql)
  case Nil
  then show ?case by simp
next
  case (Cons c rest)
  then have c: "render_cell lib err tys i c = Continue (cell_text lib tys (i, c))"
    by (simp add: cell_ok_render)
  from Cons.prems have rest: "list_all (cell_ok lib tys) (enumerate (Suc i) rest)" by simp
  show ?case
  proof (cases rest)
    case Nil
    with c Cons.prems show ?thesis by simp
  next
    case (Cons c' rest')
    with c rest Cons.prems Cons.IH [of "Suc i"] show ?thesis by simp
  qed
qed

text \<open>The first cell that gets no text ends the row with what its clause does.\<close>

lemma render_row_fails:
  "list_all (cell_ok lib tys) (enumerate i cpre) \<Longrightarrow>
   render_cell lib err tys (i + length cpre) col = r \<Longrightarrow> r = Return e \<or> r = Panic \<Longrightarrow>
   render_row lib err tys n i (cpre @ col # cpost) ssql = r"
proof (induction cpre arbitrary: i ssql)
  case Nil
  then show ?case by auto
next
  case (Cons c cpre)
  then have c: "render_cell lib err tys i c = Continue (cell_text lib tys (i, c))"
    by (simp add: cell_ok_render)
  from Cons.prems have "list_all (cell_ok lib tys) (enumerate (Suc i) cpre)" by simp
  moreover from Cons.prems have "render_cell lib err tys (Suc i + length cpre) col = r" by simp
  ultimately show ?case using Cons.IH [of "Suc i"] Cons.prems(3) c by simp
qed

lemma render_row_head:
  "row_ok lib tys row \<Longrightarrow>
   render_row lib err tys (length row) 0 row (insert_head ignoreInsert table)
     = Continue (insert_head ignoreInsert table
                 @ commas (map (cell_text lib tys) (enumerate 0 row)))"
  by (simp add: row_ok_def render_row_ok)

lemma insert_statement_head:
  "insert_statement lib ignoreInsert table tys row
     = insert_head ignoreInsert table @ commas (map (cell_text lib tys) (enumerate 0 row))
       @ '');\<newline>''"
  by (simp add: insert_statement_def insert_head_def)

lemma write_rows_ok:
  "list_all (row_ok lib tys) rows \<Longrightarrow>
   write_rows lib err table ignoreInsert tys rows buf
     = (buf @ concat (map (insert_statement lib ignoreInsert table tys) rows), Continue ())"
proof (induction rows arbitrary: buf)
  case Nil
  then show ?case by simp
next
  case (Cons row rows)
  then show ?case
    by (simp add: render_row_head insert_statement_head)
qed

text \<open>
  The rows before the first row with a cell that gets no text are written; that row
  ends \<open>write_rows\<close> with what its cell does.
\<close>

lemma write_rows_fails:
  "list_all (row_ok lib tys) pre \<Longrightarrow>
   render_row lib err tys (length row) 0 row (insert_head ignoreInsert table) = Return e \<Longrightarrow>
   write_rows lib err table ignoreInsert tys (pre @ row # post) buf
     = (buf @ concat (map (insert_statement lib ignoreInsert table tys) pre), Return e)"
proof (induction pre arbitrary: buf)
  case Nil
  then show ?case by simp
next
  case (Cons p pre)
  then show ?case
    by (simp add: render_row_head insert_statement_head)
qed

lemma write_rows_panics:
  "list_all (row_ok lib tys) pre \<Longrightarrow>
   render_row lib err tys (length row) 0 row (insert_head ignoreInsert table) = Panic \<Longrightarrow>
   write_rows lib err table ignoreInsert tys (pre @ row # post) buf
     = (buf @ concat (map (insert_statement lib ignoreInsert table tys) pre), Panic)"
proof (induction pre arbitrary: buf)
  case Nil
  then show ?case by simp
next
  case (Cons p pre)
  then show ?case
    by (simp add: render_row_head insert_statement_head)
qed

lemma scan_rows_all:
  "list_all (\<lambda>r. length r = ncols) rows \<Longrightarrow>
   scan_rows ncols None (map Inr rows) acc = Inr (None, acc @ rows)"
  by (induction rows arbitrary: acc) (simp_all add: Scan_def)

text \<open>
  When the table is read without an error, \<open>writeTableData\<close> is the loop over the
  rows, entered with \<open>err = nil\<close>.
\<close>

lemma writeTableData_reads:
  assumes "table_reads db table cols tys rows"
  shows "writeTableData lib db table buf ignoreInsert
     = (case write_rows lib None table ignoreInsert tys rows (buf @ records_banner table) of
          (buf', Continue u) \<Rightarrow> (buf' @ ''\<newline>\<newline>'', Returned None)
        | (buf', Return e) \<Rightarrow> (buf', Returned e)
        | (buf', Panic) \<Rightarrow> (buf', Panicked))"
proof -
  from assms obtain rs where rs: "Query_SELECT db table = Inr rs"
    and c: "rs_Columns rs = Inr cols" and t: "rs_ColumnTypes rs = Inr tys"
    and n: "rs_Next rs = map Inr rows"
    and l: "list_all (\<lambda>row. length row = length cols) rows"
    by (auto simp: table_reads_def split: sum.splits)
  from l have "scan_rows (length cols) None (map Inr rows) [] = Inr (None, rows)"
    using scan_rows_all [of "length cols" rows "[]"] by simp
  with rs c t n show ?thesis by (simp add: writeTableData_def)
qed

section \<open>The code renders what the specification's rules give\<close>

lemma normalize_Type_qualified:
  "normalize_Type (''UNSIGNED '' @ name) = normalize_Type name"
proof -
  have "strings_Replace (''UNSIGNED '' @ name) ''UNSIGNED'' [] (- 1)
          = CHR '' '' # strings_Replace name ''UNSIGNED'' [] (- 1)"
    using strings_Replace_head [of "''UNSIGNED''" "- 1" "CHR '' '' # name" "[]"]
    by (simp add: strings_Replace.simps(2))
  then show ?thesis
    by (simp add: normalize_Type_def strings_Replace_char)
qed

lemma category_table_all:
  "list_all (\<lambda>p. switch_case (normalize_Type (fst p)) = Some (snd p)) category_table"
  by (simp add: category_table_def switch_case_def normalize_Type_def strings_Replace.simps(2))

lemma category_table_switch:
  assumes "map_of category_table T = Some cat"
  shows "switch_case (normalize_Type T) = Some cat"
proof -
  from assms have "(T, cat) \<in> set category_table" by (rule map_of_SomeD)
  with category_table_all show ?thesis
    unfolding list_all_iff by fastforce
qed

lemma spec_category_switch:
  assumes "spec_category name = Some cat"
  shows "switch_case (normalize_Type name) = Some cat"
proof (cases "take 9 name = ''UNSIGNED ''")
  case True
  then have "name = ''UNSIGNED '' @ drop 9 name"
    by (metis append_take_drop_id)
  then have "normalize_Type name = normalize_Type (drop 9 name)"
    using normalize_Type_qualified [of "drop 9 name"] by simp
  with assms True show ?thesis
    by (simp add: spec_category_def category_table_switch)
next
  case False
  with assms show ?thesis by (simp add: spec_category_def category_table_switch)
qed

lemma spec_literal_render:
  assumes "switch_case (normalize_Type name) = Some cat" and "spec_literal cat col = Some v"
  shows "render_value lib err name col = Continue v"
  using assms
  by (cases cat; cases col)
     (auto simp: spec_literal_def render_value_def Sprintf_d_def Sprintf_f_def Sprintf_s_def
       Sprintf_X_def quoted_def spec_quote_def spec_escape_def strings_Replace_char
       split: gofloat.splits)

lemma spec_cell_render:
  assumes "spec_cell name col = Some v" and "i < length tys" and "tys ! i = name"
  shows "render_cell lib err tys i col = Continue v"
proof (cases "col = VNil")
  case True
  with assms(1) show ?thesis by (simp add: spec_cell_def render_cell_def)
next
  case False
  with assms(1) obtain cat where c: "spec_category name = Some cat"
    and l: "spec_literal cat col = Some v"
    by (auto simp: spec_cell_def split: option.splits)
  from c have "switch_case (normalize_Type name) = Some cat" by (rule spec_category_switch)
  from this l have "render_value lib err name col = Continue v" by (rule spec_literal_render)
  with False assms(2,3) show ?thesis by (simp add: render_cell_def)
qed

lemma drop_ConsD:
  assumes "drop i xs = y # ys"
  shows "i < length xs \<and> xs ! i = y \<and> drop (Suc i) xs = ys"
proof -
  from assms have i: "i < length xs" by (cases "i < length xs") auto
  then have "xs ! i # drop (Suc i) xs = drop i xs" by (rule Cons_nth_drop_Suc)
  with assms i show ?thesis by simp
qed

lemma spec_cells_length: "spec_cells names row = Some vs \<Longrightarrow> length vs = length row"
  by (induction names row arbitrary: vs rule: spec_cells.induct)
     (auto split: option.splits)

lemma spec_cells_render:
  "spec_cells (drop i tys) cells = Some vs \<Longrightarrow> n = i + length cells \<Longrightarrow>
   render_row lib err tys n i cells ssql = Continue (ssql @ commas vs)"
proof (induction cells arbitrary: i vs ssql)
  case Nil
  then show ?case by (cases "drop i tys") simp_all
next
  case (Cons c rest)
  from Cons.prems(1) obtain name names where d: "drop i tys = name # names"
    by (cases "drop i tys") simp_all
  then have i: "i < length tys" and n: "tys ! i = name" and r: "drop (Suc i) tys = names"
    using drop_ConsD [of i tys name names] by simp_all
  from Cons.prems(1) d obtain v0 vs0 where v0: "spec_cell name c = Some v0"
    and vs0: "spec_cells names rest = Some vs0" and vs: "vs = v0 # vs0"
    by (auto split: option.splits)
  from v0 i n have c: "render_cell lib err tys i c = Continue v0" by (rule spec_cell_render)
  from vs0 have len: "length vs0 = length rest" by (rule spec_cells_length)
  from vs0 r have "spec_cells (drop (Suc i) tys) rest = Some vs0" by simp
  then have ih: "render_row lib err tys n (Suc i) rest s = Continue (s @ commas vs0)" for s
    using Cons.IH [of "Suc i" vs0 s] Cons.prems(2) by simp
  show ?case
  proof (cases rest)
    case Nil
    with len have "vs0 = []" by simp
    with c ih vs Nil Cons.prems(2) show ?thesis by simp
  next
    case (Cons c' rest')
    with len obtain w ws where "vs0 = w # ws" by (cases vs0) auto
    with c ih vs Cons \<open>n = i + length (c # rest)\<close> show ?thesis by simp
  qed
qed

lemma spec_statement_render:
  assumes "spec_statement ignoreInsert table tys row = Some st"
  shows "\<exists>ssql. render_row lib err tys (length row) 0 row (insert_head ignoreInsert table)
           = Continue ssql \<and> st = ssql @ '');\<newline>''"
proof -
  from assms obtain vs where vs: "spec_cells tys row = Some vs"
    and st: "st = insert_head ignoreInsert table @ commas vs @ '');\<newline>''"
    by (auto simp: spec_statement_def insert_head_def split: option.splits)
  from vs have "render_row lib err tys (length row) 0 row (insert_head ignoreInsert table)
      = Continue (insert_head ignoreInsert table @ commas vs)"
    using spec_cells_render [of 0 tys row vs "length row"] by simp
  with st show ?thesis by simp
qed

lemma spec_statements_write:
  "spec_statements ignoreInsert table tys rows = Some sts \<Longrightarrow>
   write_rows lib err table ignoreInsert tys rows buf = (buf @ concat sts, Continue ())"
proof (induction rows arbitrary: sts buf)
  case Nil
  then show ?case by simp
next
  case (Cons row rows)
  then obtain st sts' where st: "spec_statement ignoreInsert table tys row = Some st"
    and sts': "spec_statements ignoreInsert table tys rows = Some sts'" and e: "sts = st # sts'"
    by (auto split: option.splits)
  from st obtain ssql where
    "render_row lib err tys (length row) 0 row (insert_head ignoreInsert table) = Continue ssql"
    and "st = ssql @ '');\<newline>''"
    using spec_statement_render by blast
  with Cons.IH [OF sts'] e show ?case by simp
qed

section \<open>Lemmas about Dump\<close>

lemma dump_tables_append:
  "dump_tables lib db d (xs @ ys) buf
     = (case dump_tables lib db d xs buf of
          (buf', Continue u) \<Rightarrow> dump_tables lib db d ys buf'
        | (buf', Return e) \<Rightarrow> (buf', Return e)
        | (buf', Panic) \<Rightarrow> (buf', Panic))"
  by (induction xs arbitrary: buf)
     (auto simp: Let_def split: prod.splits option.splits outcome.splits step.splits)

lemma Dump_connects:
  assumes "connects db" and "select_tables db (Dump_options opts) = Inr tabs"
  shows "Dump lib start cost db opts
     = (case dump_tables lib db (Dump_options opts) tabs (dump_header start) of
          (buf', Continue u) \<Rightarrow> (buf' @ dump_footer cost, Returned None)
        | (buf', Return e) \<Rightarrow> (buf', Returned e)
        | (buf', Panic) \<Rightarrow> (buf', Panicked))"
  using assms by (auto simp: Dump_def connects_def Let_def split: sum.splits option.splits)

lemma bMap_lookup:
  "fold (\<lambda>elementB m. m(elementB \<mapsto> True)) xs m a = (if a \<in> set xs then Some True else m a)"
  by (induction xs arbitrary: m) auto

text \<open>
  The table reached by the loop after the tables \<open>before\<close>, once its structure is
  written: what \<open>writeTableData\<close> returns decides how the loop goes on.
\<close>

lemma dump_tables_at:
  assumes "dump_tables lib db d before buf = (buf1, Continue ())"
    and "writeTableStruct db table (write_drop d table buf1) = (buf2, None)"
    and "isData d"
  shows "dump_tables lib db d (before @ table # after) buf
     = (case writeTableData lib db table buf2 (isIgnoreInsert d) of
          (buf3, Returned (Some e)) \<Rightarrow> (buf3, Return (Some e))
        | (buf3, Returned None) \<Rightarrow> dump_tables lib db d after buf3
        | (buf3, Panicked) \<Rightarrow> (buf3, Panic))"
  using assms by (simp add: dump_tables_append Let_def)

lemma table_reads_length:
  "table_reads db table cols tys rows \<Longrightarrow> row \<in> set rows \<Longrightarrow> length row = length tys"
  by (auto simp: table_reads_def list_all_iff split: sum.splits)

section \<open>What the first cell without a text does to the table and to the dump\<close>

text \<open>
  The five clauses for dates and times leave \<open>writeTableData\<close> by \<open>return err\<close> on a
  value of the wrong kind. The rows are rendered after every call that assigns
  \<open>err\<close> has succeeded, so \<open>err\<close> is \<open>nil\<close> there: the function returns \<open>nil\<close> after the
  statements of the rows before.
\<close>

lemma conversion_mismatch_returns_nil:
  assumes "table_reads db table cols tys
             (rows_before @ (cells_before @ col # cells_after) # rows_after)"
    and "list_all (row_ok lib tys) rows_before"
    and "list_all (cell_ok lib tys) (enumerate 0 cells_before)"
    and "col \<noteq> VNil"
    and "switch_case (normalize_Type (tys ! length cells_before)) \<in> {Some Date, Some DateTime, Some Timestamp}
           \<and> (\<forall>t. col \<noteq> VTime t)
         \<or> switch_case (normalize_Type (tys ! length cells_before)) \<in> {Some Time, Some Year}
           \<and> (\<forall>bs. col \<noteq> VBytes bs)"
  shows "writeTableData lib db table buf ignoreInsert
     = (buf @ records_banner table
        @ concat (map (insert_statement lib ignoreInsert table tys) rows_before),
        Returned None)"
proof -
  let ?row = "cells_before @ col # cells_after"
  have "length ?row = length tys"
    using assms(1) by (rule table_reads_length) simp
  then have "length cells_before < length tys" by simp
  with assms(4,5) have "render_cell lib None tys (0 + length cells_before) col = Return None"
    by (cases col) (auto simp: render_cell_def render_value_def)
  with assms(3) have "render_row lib None tys (length ?row) 0 ?row
      (insert_head ignoreInsert table) = Return None"
    by (rule render_row_fails) simp
  with assms(2) have "write_rows lib None table ignoreInsert tys
      (rows_before @ ?row # rows_after) (buf @ records_banner table)
     = ((buf @ records_banner table)
         @ concat (map (insert_statement lib ignoreInsert table tys) rows_before),
        Return None)"
    by (rule write_rows_fails)
  with assms(1) show ?thesis by (simp add: writeTableData_reads)
qed

text \<open>
  A panic of the Boolean clause is not recovered anywhere: it ends \<open>writeTableData\<close>
  and \<open>Dump\<close>.
\<close>

lemma boolean_mismatch_panics_dump:
  assumes "connects db"
    and "select_tables db (Dump_options opts) = Inr (before @ table # after)"
    and "dump_tables lib db (Dump_options opts) before (dump_header start) = (buf1, Continue ())"
    and "writeTableStruct db table (write_drop (Dump_options opts) table buf1) = (buf2, None)"
    and "isData (Dump_options opts)"
    and "table_reads db table cols tys
           (rows_before @ (cells_before @ col # cells_after) # rows_after)"
    and "list_all (row_ok lib tys) rows_before"
    and "list_all (cell_ok lib tys) (enumerate 0 cells_before)"
    and "col \<noteq> VNil" and "\<forall>b. col \<noteq> VBool b"
    and "switch_case (normalize_Type (tys ! length cells_before)) = Some Boolean"
  shows "Dump lib start cost db opts
     = (buf2 @ records_banner table
        @ concat (map (insert_statement lib (isIgnoreInsert (Dump_options opts)) table tys)
            rows_before),
        Panicked)"
proof -
  let ?d = "Dump_options opts"
  let ?row = "cells_before @ col # cells_after"
  let ?out = "buf2 @ records_banner table
    @ concat (map (insert_statement lib (isIgnoreInsert ?d) table tys) rows_before)"
  have "length ?row = length tys"
    using assms(6) by (rule table_reads_length) simp
  then have "length cells_before < length tys" by simp
  with assms(9,10,11) have "render_cell lib None tys (0 + length cells_before) col = Panic"
    by (cases col) (auto simp: render_cell_def render_value_def)
  with assms(8) have "render_row lib None tys (length ?row) 0 ?row
      (insert_head (isIgnoreInsert ?d) table) = Panic"
    by (rule render_row_fails) simp
  with assms(7) have "write_rows lib None table (isIgnoreInsert ?d) tys
      (rows_before @ ?row # rows_after) (buf2 @ records_banner table)
     = ((buf2 @ records_banner table)
         @ concat (map (insert_statement lib (isIgnoreInsert ?d) table tys) rows_before),
        Panic)"
    by (rule write_rows_panics)
  with assms(6) have "writeTableData lib db table buf2 (isIgnoreInsert ?d) = (?out, Panicked)"
    by (simp add: writeTableData_reads)
  with assms(3,4,5) have "dump_tables lib db ?d (before @ table # after) (dump_header start)
     = (?out, Panic)"
    by (simp add: dump_tables_at)
  with assms(1,2) show ?thesis by (simp add: Dump_connects)
qed

section \<open>Evaluation of the examples\<close>

lemmas eval_switch = switch_case_def normalize_Type_def strings_Replace.simps(2)

lemmas eval_text =
  fmt_d_def digits10_small digits10_large digit_char_def Sprintf_d_def Sprintf_s_def Sprintf_f_def Sprintf_X_def
  quoted_def Format_date_def Format_datetime_def appendInt_def pad_zero_def

lemmas eval_db =
  database_of_def table_of_def people_def shapes_def shop_def no_lib_def commented_def
  events_def diary_def

lemmas eval_dump =
  Dump_def Dump_options_def apply_opts_def zero_dumpOption_def WithData_def WithTables_def
  WithAllTable_def WithDropTable_def WithIgnoreInsertTable_def WithIgnoreTables_def
  select_tables_def getAllTables_def writeTableStruct_def getCreateTableSQL_def
  writeTableData_def Scan_def render_cell_def render_value_def write_drop_def insert_head_def
  records_banner_def dump_header_def dump_footer_def connects_def

lemmas eval_spec =
  spec_statement_def spec_cell_def spec_category_def category_table_def spec_literal_def
  spec_quote_def spec_escape_def

section \<open>The properties\<close>

text \<open>
  Claim C10. The null check comes before any classification: a null cell is rendered as
  the bare word \<open>NULL\<close> whatever the type names of the columns are (also when the type
  of its column is unknown or missing), and the loop goes on with the next cell; the
  switch runs only for a cell that is not null.
\<close>

theorem null_before_classification:
  "render_cell lib err columnTypes i VNil = Continue ''NULL'' \<and>
   render_row lib err columnTypes n i (VNil # rest) ssql
     = render_row lib err columnTypes n (i + 1) rest
         (ssql @ ''NULL'' @ (if i < n - 1 then '','' else []))"
  by (simp add: render_cell_def)

text \<open>
  Claim C9. For a value that is not null, the switch panics exactly when the column's
  clause is the Boolean one and the value is not a \<open>bool\<close>: the type assertion of line
  372 is unchecked, and no other clause panics on a value it does not expect.
\<close>

theorem boolean_mismatch_panics:
  "col \<noteq> VNil \<Longrightarrow>
   (render_value lib err name col = Panic)
     = (switch_case (normalize_Type name) = Some Boolean \<and> (\<forall>b. col \<noteq> VBool b))"
  by (cases col) (auto simp: render_value_def Let_def split: option.splits category.splits)

theorem boolean_mismatch_panics_witness:
  "VInt64 1 \<noteq> VNil \<and> render_value no_lib None ''BOOLEAN'' (VInt64 1) = Panic"
  using boolean_mismatch_panics [of "VInt64 1" no_lib None "''BOOLEAN''"]
  by (simp add: eval_switch)

text \<open>
  Claim C5. For a string value (a byte slice or a string) of a Text column, the literal
  is the value between single quotes with every single quote doubled and every other
  character as it is.
\<close>

theorem text_quotes_doubled:
  "switch_case (normalize_Type name) = Some Text \<Longrightarrow>
   col = VBytes s \<or> col = VString s \<Longrightarrow>
   render_value lib err name col
     = Continue ([CHR 0x27]
         @ concat (map (\<lambda>c. if c = CHR 0x27 then [CHR 0x27, CHR 0x27] else [c]) s)
         @ [CHR 0x27])"
  by (auto simp: render_value_def Let_def quoted_def Sprintf_s_def strings_Replace_char)

theorem text_quotes_doubled_witness:
  "switch_case (normalize_Type ''VARCHAR'') = Some Text \<and>
   render_value no_lib None ''VARCHAR'' (VString (''O'' @ [CHR 0x27] @ ''Brien''))
     = Continue ([CHR 0x27] @ ''O'' @ [CHR 0x27, CHR 0x27] @ ''Brien'' @ [CHR 0x27])"
proof -
  have h: "switch_case (normalize_Type ''VARCHAR'') = Some Text"
    by (simp add: eval_switch)
  show ?thesis
    using h text_quotes_doubled [OF h, of "VString (''O'' @ [CHR 0x27] @ ''Brien'')"
        "''O'' @ [CHR 0x27] @ ''Brien''" no_lib None]
    by simp
qed

text \<open>
  Claim C3, as the code has it. The tables dumped are the inclusion list when it is
  not empty and the option "all tables" is not set; in every other case (the option is
  set, or the list is empty) they are all the tables of the database but those of the
  exclusion list, in the order the database reports them.
\<close>

theorem tables_selected:
  "select_tables db (Dump_options opts) =
     (let d = apply_opts opts in
      if tables d \<noteq> [] \<and> \<not> isAllTable d then Inr (tables d)
      else (case getAllTables db of
              Inl e \<Rightarrow> Inl e
            | Inr tmp \<Rightarrow> Inr (filter (\<lambda>t. t \<notin> set (ignoreTables d)) tmp)))"
  by (auto simp: select_tables_def Dump_options_def Let_def bMap_lookup split: sum.splits)

text \<open>
  Claim C3 as stated fails: with the inclusion list \<open>["t"]\<close> and the option "all
  tables", the inclusion list does not determine the tables: all three are dumped.
\<close>

theorem inclusion_list_overridden:
  "tables (apply_opts [WithTables [''t''], WithAllTable]) = [''t''] \<and>
   select_tables shop (Dump_options [WithTables [''t''], WithAllTable]) = Inr [''t'', ''g'', ''u'']"
  by (simp add: apply_opts_def zero_dumpOption_def WithTables_def WithAllTable_def
      select_tables_def Dump_options_def getAllTables_def eval_db)

text \<open>
  Claim C7, as the code has it. The type name is normalized by deleting the occurrences
  of the upper-case text \<open>UNSIGNED\<close>, found from the left, and then every space
  character: so the qualifier in front of a name is stripped, and in a name without
  the letter \<open>U\<close> (a lower-case \<open>unsigned\<close> included) only the spaces are deleted.
\<close>

theorem normalize_Type_strips:
  "normalize_Type name
     = filter (\<lambda>c. c \<noteq> CHR '' '') (strings_Replace name ''UNSIGNED'' [] (- 1)) \<and>
   normalize_Type (''UNSIGNED '' @ name) = normalize_Type name \<and>
   (CHR ''U'' \<notin> set name \<longrightarrow> normalize_Type name = filter (\<lambda>c. c \<noteq> CHR '' '') name)"
proof -
  have f: "strings_Replace s '' '' [] (- 1) = filter (\<lambda>c. c \<noteq> CHR '' '') s" for s
    by (induction s) (simp_all add: strings_Replace_char)
  have u: "strings_Replace (''UNSIGNED '' @ name) ''UNSIGNED'' [] (- 1)
             = CHR '' '' # strings_Replace name ''UNSIGNED'' [] (- 1)"
    using strings_Replace_head [of "''UNSIGNED''" "- 1" "CHR '' '' # name" "[]"]
    by (simp add: strings_Replace.simps(2))
  have n: "CHR ''U'' \<notin> set name \<Longrightarrow> strings_Replace name ''UNSIGNED'' [] (- 1) = name"
    using strings_Replace_no_head [of "''UNSIGNED''" name "[]" "- 1"] by simp
  show ?thesis
    unfolding normalize_Type_def f u using n by simp
qed

theorem normalize_Type_strips_witness:
  "CHR ''U'' \<notin> set ''int unsigned'' \<and> normalize_Type ''int unsigned'' = ''intunsigned'' \<and>
   normalize_Type ''UNSIGNED BIGINT'' = ''BIGINT''"
  using normalize_Type_strips [of "''int unsigned''"] normalize_Type_strips [of "''BIGINT''"]
  by (simp add: strings_Replace.simps(2))

text \<open>
  Claim C7 as stated fails: a lower-case \<open>unsigned\<close> stays in the name, which then
  matches no clause, and a tab is not deleted.
\<close>

theorem lower_case_unsigned_kept:
  "normalize_Type ''INT unsigned'' = ''INTunsigned'' \<and>
   switch_case (normalize_Type ''INT unsigned'') = None \<and>
   normalize_Type (''INT'' @ [CHR 0x09] @ ''UNSIGNED'') = ''INT'' @ [CHR 0x09]"
  by (simp add: eval_switch)

text \<open>
  Claim C8. In the structure statement, the first occurrence of \<open>CREATE TABLE\<close> is
  replaced by \<open>CREATE TABLE IF NOT EXISTS\<close> and nothing after it is changed, whatever
  follows it holds (another \<open>CREATE TABLE\<close>, in a column comment, included).
\<close>

theorem create_table_rewritten_once:
  assumes "QueryRow_SHOW_CREATE_TABLE db table = Inr (pre @ ''CREATE TABLE'' @ post)"
    and "\<forall>i<length pre. \<not> occurs_at ''CREATE TABLE'' i (pre @ ''CREATE TABLE'' @ post)"
  shows "getCreateTableSQL db table = Inr (pre @ ''CREATE TABLE IF NOT EXISTS'' @ post)"
  using assms
    strings_Replace_first [of "''CREATE TABLE''" pre post "''CREATE TABLE IF NOT EXISTS''"]
  by (simp add: getCreateTableSQL_def)

theorem create_table_rewritten_once_witness:
  "QueryRow_SHOW_CREATE_TABLE commented ''t''
     = Inr (''/* CREATE */ '' @ ''CREATE TABLE'' @ '' `t` (`c` int) /* CREATE TABLE */'') \<and>
   getCreateTableSQL commented ''t''
     = Inr ''/* CREATE */ CREATE TABLE IF NOT EXISTS `t` (`c` int) /* CREATE TABLE */''"
proof -
  have h: "QueryRow_SHOW_CREATE_TABLE commented ''t''
     = Inr (''/* CREATE */ '' @ ''CREATE TABLE'' @ '' `t` (`c` int) /* CREATE TABLE */'')"
    by (simp add: commented_def eval_db)
  have g: "\<forall>i<length ''/* CREATE */ ''.
     \<not> occurs_at ''CREATE TABLE'' i
         (''/* CREATE */ '' @ ''CREATE TABLE'' @ '' `t` (`c` int) /* CREATE TABLE */'')"
    by (simp add: occurs_at_def All_less_Suc)
  show ?thesis
    using h create_table_rewritten_once [OF h g] by simp
qed

text \<open>
  Claim C4. When the table is read without an error and the rules of the
  specification give a statement for every row (every value is null or of a kind its
  column's category has a literal for), \<open>writeTableData\<close> writes the banner, then
  for every row, in order, exactly the statement of the specification:
  \<open>INSERT INTO `<table>` VALUES (v1,...,vn);\<close> and a newline (\<open>INSERT IGNORE INTO\<close> for
  every row when ignore-duplicates is set), where a null is the bare word \<open>NULL\<close>, any
  other value is the literal of its column's category, and commas stand between the
  values only; two newlines end the data and the error returned is \<open>nil\<close>.
\<close>

theorem rows_written_as_insert_statements:
  assumes "table_reads db table cols tys rows"
    and "spec_statements ignoreInsert table tys rows = Some sts"
  shows "writeTableData lib db table buf ignoreInsert
     = (buf @ records_banner table @ concat sts @ ''\<newline>\<newline>'', Returned None)"
  using assms by (simp add: writeTableData_reads spec_statements_write)

theorem rows_written_as_insert_statements_witness:
  "writeTableData no_lib warehouse ''s'' [] False
     = (records_banner ''s''
        @ ''INSERT INTO `s` VALUES (18446744073709551615,1.500000,12.50,''
        @ spec_quote ''2024-11-02'' @ '','' @ spec_quote ''2024-11-02 03:04:05'' @ '',''
        @ spec_quote ''2024-11-02 03:04:05'' @ '','' @ spec_quote ''03:04:05'' @ '',2024,''
        @ spec_quote (''O'' @ [CHR 0x27, CHR 0x27] @ ''Brien'') @ '',0x617E,''
        @ spec_quote ''red'' @ '',true,'' @ spec_quote ''{}'' @ '');\<newline>''
        @ ''INSERT INTO `s` VALUES (7,NULL,NULL,NULL,NULL,NULL,NULL,NULL,NULL,NULL,NULL,false,NULL);\<newline>''
        @ ''\<newline>\<newline>'',
        Returned None) \<and>
   writeTableData no_lib shop ''t'' [] True
     = (records_banner ''t''
        @ ''INSERT IGNORE INTO `t` VALUES (1,'' @ spec_quote (''O'' @ [CHR 0x27, CHR 0x27] @ ''Brien'')
        @ '');\<newline>''
        @ ''INSERT IGNORE INTO `t` VALUES (NULL,'' @ spec_quote ''x'' @ '');\<newline>''
        @ ''\<newline>\<newline>'',
        Returned None)"
proof -
  let ?tys = "[''UNSIGNED BIGINT'', ''DOUBLE'', ''DECIMAL'', ''DATE'', ''DATETIME'', ''TIMESTAMP'',
    ''TIME'', ''YEAR'', ''VARCHAR'', ''BLOB'', ''ENUM'', ''BOOL'', ''JSON'']"
  let ?t = "\<lparr>year = 2024, month = 11, day = 2, hour = 3, minute = 4, second = 5\<rparr>"
  let ?row1 = "[VUint64 18446744073709551615, VFloat (FFinite False 3 (- 1)), VBytes ''12.50'',
    VTime ?t, VTime ?t, VTime ?t, VBytes ''03:04:05'', VBytes ''2024'',
    VString (''O'' @ [CHR 0x27] @ ''Brien''), VBytes ''a~'', VBytes ''red'', VBool True,
    VBytes ''{}'']"
  let ?row2 = "[VBytes ''7'', VNil, VNil, VNil, VNil, VNil, VNil, VNil, VNil, VNil, VNil,
    VBool False, VNil]"
  let ?st1 = "''INSERT INTO `s` VALUES (18446744073709551615,1.500000,12.50,''
        @ spec_quote ''2024-11-02'' @ '','' @ spec_quote ''2024-11-02 03:04:05'' @ '',''
        @ spec_quote ''2024-11-02 03:04:05'' @ '','' @ spec_quote ''03:04:05'' @ '',2024,''
        @ spec_quote (''O'' @ [CHR 0x27, CHR 0x27] @ ''Brien'') @ '',0x617E,''
        @ spec_quote ''red'' @ '',true,'' @ spec_quote ''{}'' @ '');\<newline>''"
  let ?st2 = "''INSERT INTO `s` VALUES (7,NULL,NULL,NULL,NULL,NULL,NULL,NULL,NULL,NULL,NULL,false,NULL);\<newline>''"
  have k6: "scaled6 3 (- 1) = 1500000"
    by (simp add: scaled6_def round_half_even_def)
  have d1: "digits10 (Suc 0) = ''1''" and d5: "digits10 500000 = ''500000''"
    by (simp_all add: digits10_small digits10_large digit_char_def)
  have ff: "fmt_f (FFinite False 3 (- 1)) = ''1.500000''"
    by (simp add: fmt_f_def k6 d1 d5 pad_zero_def)
  have fx: "fmt_X ''a~'' = ''617E''"
    by (simp add: fmt_X_def hex_byte_def digit_char_def)
  have dt: "Format_date ?t = ''2024-11-02''" "Format_datetime ?t = ''2024-11-02 03:04:05''"
    by (simp_all add: Format_datetime_def Format_date_def appendInt_def pad_zero_def
        digits10_small digits10_large digit_char_def)
  have r: "table_reads warehouse ''s''
      [''id'', ''price'', ''amount'', ''born'', ''seen'', ''stamp'', ''at'', ''yr'', ''name'',
       ''photo'', ''kind'', ''ok'', ''doc''] ?tys [?row1, ?row2]"
    by (simp add: table_reads_def warehouse_def samples_def eval_db)
  have s1: "spec_statement False ''s'' ?tys ?row1 = Some ?st1"
    by (simp add: eval_spec ff fx dt fmt_d_def digits10_small digits10_large digit_char_def)
  have s2: "spec_statement False ''s'' ?tys ?row2 = Some ?st2"
    by (simp add: eval_spec)
  have k: "spec_statements False ''s'' ?tys [?row1, ?row2] = Some [?st1, ?st2]"
    unfolding spec_statements.simps s1 s2 by simp
  have r': "table_reads shop ''t'' [''id'', ''name''] [''INT'', ''VARCHAR'']
      [[VInt64 1, VString (''O'' @ [CHR 0x27] @ ''Brien'')], [VNil, VString ''x'']]"
    by (simp add: table_reads_def eval_db)
  have k': "spec_statements True ''t'' [''INT'', ''VARCHAR'']
      [[VInt64 1, VString (''O'' @ [CHR 0x27] @ ''Brien'')], [VNil, VString ''x'']]
     = Some [''INSERT IGNORE INTO `t` VALUES (1,''
               @ spec_quote (''O'' @ [CHR 0x27, CHR 0x27] @ ''Brien'') @ '');\<newline>'',
             ''INSERT IGNORE INTO `t` VALUES (NULL,'' @ spec_quote ''x'' @ '');\<newline>'']"
    by (simp add: eval_spec fmt_d_def digits10_small digits10_large digit_char_def)
  show ?thesis
    using rows_written_as_insert_statements [OF r k, of no_lib "[]"]
      rows_written_as_insert_statements [OF r' k', of no_lib "[]"]
    by simp
qed

text \<open>
  Claim C6. A cell that is not null, in a column whose normalized type name is in no
  clause of the switch, ends the whole dump with the unsupported-type error as soon
  as it is reached: when the dump gets to the data of the table (the connection
  opens, the tables before it are dumped, its structure is written, data is asked
  for), the table is read, and the rows and cells before the cell get their texts,
  \<open>Dump\<close> returns that error, and nothing is written after the statements of the rows
  before: no statement for the row, no later table, no closing banner.
\<close>

theorem unsupported_type_aborts_dump:
  assumes "connects db"
    and "select_tables db (Dump_options opts) = Inr (before @ table # after)"
    and "dump_tables lib db (Dump_options opts) before (dump_header start) = (buf1, Continue ())"
    and "writeTableStruct db table (write_drop (Dump_options opts) table buf1) = (buf2, None)"
    and "isData (Dump_options opts)"
    and "table_reads db table cols tys
           (rows_before @ (cells_before @ col # cells_after) # rows_after)"
    and "list_all (row_ok lib tys) rows_before"
    and "list_all (cell_ok lib tys) (enumerate 0 cells_before)"
    and "col \<noteq> VNil"
    and "switch_case (normalize_Type (tys ! length cells_before)) = None"
  shows "Dump lib start cost db opts
     = (buf2 @ records_banner table
        @ concat (map (insert_statement lib (isIgnoreInsert (Dump_options opts)) table tys)
            rows_before),
        Returned (Some (UnsupportedType (normalize_Type (tys ! length cells_before)))))"
proof -
  let ?d = "Dump_options opts"
  let ?row = "cells_before @ col # cells_after"
  let ?e = "Some (UnsupportedType (normalize_Type (tys ! length cells_before)))"
  let ?out = "buf2 @ records_banner table
    @ concat (map (insert_statement lib (isIgnoreInsert ?d) table tys) rows_before)"
  have "length ?row = length tys"
    using assms(6) by (rule table_reads_length) simp
  then have "length cells_before < length tys" by simp
  with assms(9,10) have "render_cell lib None tys (0 + length cells_before) col = Return ?e"
    by (simp add: render_cell_def render_value_def)
  with assms(8) have "render_row lib None tys (length ?row) 0 ?row
      (insert_head (isIgnoreInsert ?d) table) = Return ?e"
    by (rule render_row_fails) simp
  with assms(7) have "write_rows lib None table (isIgnoreInsert ?d) tys
      (rows_before @ ?row # rows_after) (buf2 @ records_banner table)
     = ((buf2 @ records_banner table)
         @ concat (map (insert_statement lib (isIgnoreInsert ?d) table tys) rows_before),
        Return ?e)"
    by (rule write_rows_fails)
  with assms(6) have "writeTableData lib db table buf2 (isIgnoreInsert ?d) = (?out, Returned ?e)"
    by (simp add: writeTableData_reads)
  with assms(3,4,5) have "dump_tables lib db ?d (before @ table # after) (dump_header start)
     = (?out, Return ?e)"
    by (simp add: dump_tables_at)
  with assms(1,2) show ?thesis by (simp add: Dump_connects)
qed

theorem unsupported_type_aborts_dump_witness:
  "connects shop \<and> isData (Dump_options [WithData]) \<and>
   select_tables shop (Dump_options [WithData]) = Inr ([''t''] @ ''g'' # [''u'']) \<and>
   table_reads shop ''g'' [''id'', ''shape''] [''INT'', ''GEOMETRY'']
     ([[VInt64 1, VNil]] @ ([VInt64 2] @ VBytes ''xx'' # []) # []) \<and>
   Dump no_lib ''S'' ''C'' shop [WithData]
     = (dump_header ''S''
        @ ''-- ----------------------------\<newline>'' @ ''-- Table structure for t\<newline>''
        @ ''-- ----------------------------\<newline>''
        @ ''CREATE TABLE IF NOT EXISTS `t` (`id` int, `name` varchar(10));\<newline>\<newline>\<newline>\<newline>''
        @ records_banner ''t''
        @ ''INSERT INTO `t` VALUES (1,'' @ [CHR 0x27] @ ''O'' @ [CHR 0x27, CHR 0x27] @ ''Brien''
        @ [CHR 0x27] @ '');\<newline>''
        @ ''INSERT INTO `t` VALUES (NULL,'' @ [CHR 0x27] @ ''x'' @ [CHR 0x27] @ '');\<newline>''
        @ ''\<newline>\<newline>''
        @ ''-- ----------------------------\<newline>'' @ ''-- Table structure for g\<newline>''
        @ ''-- ----------------------------\<newline>''
        @ ''CREATE TABLE IF NOT EXISTS `g` (`id` int, `shape` geometry);\<newline>\<newline>\<newline>\<newline>''
        @ records_banner ''g''
        @ ''INSERT INTO `g` VALUES (1,NULL);\<newline>'',
        Returned (Some (UnsupportedType ''GEOMETRY'')))"
proof -
  let ?d = "Dump_options [WithData]"
  let ?buf1 = "fst (dump_tables no_lib shop ?d [''t''] (dump_header ''S''))"
  let ?buf2 = "fst (writeTableStruct shop ''g'' (write_drop ?d ''g'' ?buf1))"
  have c: "connects shop"
    by (simp add: connects_def eval_db)
  have s: "select_tables shop ?d = Inr ([''t''] @ ''g'' # [''u''])"
    by (simp add: eval_dump eval_db)
  have b: "dump_tables no_lib shop ?d [''t''] (dump_header ''S'') = (?buf1, Continue ())"
    by (simp add: eval_dump eval_switch eval_text eval_db strings_Replace_char)
  have w: "writeTableStruct shop ''g'' (write_drop ?d ''g'' ?buf1) = (?buf2, None)"
    by (simp add: writeTableStruct_def getCreateTableSQL_def eval_db)
  have i: "isData ?d"
    by (simp add: eval_dump)
  have r: "table_reads shop ''g'' [''id'', ''shape''] [''INT'', ''GEOMETRY'']
     ([[VInt64 1, VNil]] @ ([VInt64 2] @ VBytes ''xx'' # []) # [])"
    by (simp add: table_reads_def eval_db)
  have k: "list_all (row_ok no_lib [''INT'', ''GEOMETRY'']) [[VInt64 1, VNil]]"
    by (simp add: row_ok_def cell_ok_def render_value_def eval_switch)
  have l: "list_all (cell_ok no_lib [''INT'', ''GEOMETRY'']) (enumerate 0 [VInt64 2])"
    by (simp add: cell_ok_def render_value_def eval_switch)
  have n: "VBytes ''xx'' \<noteq> VNil" by simp
  have u: "switch_case (normalize_Type ([''INT'', ''GEOMETRY''] ! length [VInt64 2])) = None"
    by (simp add: eval_switch)
  show ?thesis
    using c s i r unsupported_type_aborts_dump [OF c s b w i r k l n u, of "''C''"]
    by (simp add: eval_dump eval_switch eval_text eval_db strings_Replace_char
        insert_statement_def cell_text_def)
qed

text \<open>
  Claim C1 at a concrete dump. The second row of table \<open>e\<close> holds the bytes of a date
  in its \<open>DATE\<close> column. The claim asks for a dump that stops with an error that is
  not \<open>nil\<close>. The code stops the data of \<open>e\<close> after its first row, without a
  statement for the second and third row, then dumps the next table \<open>u\<close>, writes the
  closing banner and returns \<open>nil\<close>.
\<close>

theorem date_mismatch_returns_nil:
  "Dump no_lib ''S'' ''C'' diary [WithData]
     = (dump_header ''S''
        @ ''-- ----------------------------\<newline>'' @ ''-- Table structure for e\<newline>''
        @ ''-- ----------------------------\<newline>''
        @ ''CREATE TABLE IF NOT EXISTS `e` (`day` date, `what` varchar(10));\<newline>\<newline>\<newline>\<newline>''
        @ records_banner ''e''
        @ ''INSERT INTO `e` VALUES ('' @ [CHR 0x27] @ ''2024-01-02'' @ [CHR 0x27] @ '',''
        @ [CHR 0x27] @ ''a'' @ [CHR 0x27] @ '');\<newline>''
        @ ''-- ----------------------------\<newline>'' @ ''-- Table structure for u\<newline>''
        @ ''-- ----------------------------\<newline>''
        @ ''CREATE TABLE IF NOT EXISTS `u` (`id` int);\<newline>\<newline>\<newline>\<newline>''
        @ records_banner ''u''
        @ ''INSERT INTO `u` VALUES (7);\<newline>'' @ ''\<newline>\<newline>''
        @ dump_footer ''C'',
        Returned None)"
  by (simp add: eval_dump eval_switch eval_text eval_db strings_Replace_char)

text \<open>
  Claim C2, as the code has it. For an integer column, the byte sequence that holds the
  base-10 text of an integer (which denotes that integer) and the native \<open>int64\<close> or
  \<open>uint64\<close> are rendered to the same text. For a float column, a byte sequence is
  written as it is, and a native finite float is written as \<open>%f\<close> prints it, which
  always ends with a point and exactly six digits: the two texts are the same only
  when the bytes of the driver are that text already.
\<close>

theorem numeric_paths_compared:
  "decimal_value (fmt_d i) = Some (of_int i) \<and>
   (switch_case (normalize_Type name) = Some Integer \<longrightarrow>
      render_value lib err name (VBytes (fmt_d (sint w))) = render_value lib err name (VInt64 w) \<and>
      render_value lib err name (VBytes (fmt_d (uint w))) = render_value lib err name (VUint64 w)) \<and>
   (switch_case (normalize_Type name) = Some Float \<longrightarrow>
      render_value lib err name (VBytes bs) = Continue bs \<and>
      render_value lib err name (VFloat (FFinite neg m e)) = Continue (fmt_f (FFinite neg m e)) \<and>
      six_decimals (fmt_f (FFinite neg m e)))"
  by (simp add: decimal_value_fmt_d fmt_f_six_decimals render_value_def Sprintf_d_def Sprintf_f_def)

theorem numeric_paths_compared_witness:
  "switch_case (normalize_Type ''UNSIGNED BIGINT'') = Some Integer \<and>
   render_value no_lib None ''UNSIGNED BIGINT'' (VBytes ''18446744073709551615'')
     = render_value no_lib None ''UNSIGNED BIGINT'' (VUint64 18446744073709551615) \<and>
   switch_case (normalize_Type ''DOUBLE'') = Some Float \<and>
   six_decimals (fmt_f (FFinite False 3 (- 1)))"
  using numeric_paths_compared [of 0 "''UNSIGNED BIGINT''" no_lib None "18446744073709551615"]
    numeric_paths_compared [of 0 "''DOUBLE''" no_lib None 0 "[]" False 3 "- 1"]
  by (simp add: eval_switch eval_text)

text \<open>
  Claim C2 as stated fails for floats: the logical value 1.5 is rendered as \<open>1.5\<close> when
  the driver delivers the bytes of \<open>1.5\<close>, and as \<open>1.500000\<close> when it delivers the
  native number.
\<close>

theorem float_paths_differ:
  "decimal_value ''1.5'' = float_value (FFinite False 3 (- 1)) \<and>
   render_value no_lib None ''FLOAT'' (VBytes ''1.5'') = Continue ''1.5'' \<and>
   render_value no_lib None ''FLOAT'' (VFloat (FFinite False 3 (- 1))) = Continue ''1.500000''"
proof -
  have k: "scaled6 3 (- 1) = 1500000"
    by (simp add: scaled6_def round_half_even_def)
  have i: "digits10 (Suc 0) = ''1''" and f: "digits10 500000 = ''500000''"
    by (simp_all add: digits10_small digits10_large digit_char_def)
  have "fmt_f (FFinite False 3 (- 1)) = ''1.500000''"
    by (simp add: fmt_f_def k i f pad_zero_def)
  moreover have "decimal_value ''1.5'' = Some (3 / 2)"
    by (simp add: decimal_value_def)
  moreover have "float_value (FFinite False 3 (- 1)) = Some (3 / 2)"
    by (simp add: float_value_def)
  ultimately show ?thesis
    by (simp add: render_value_def eval_switch Sprintf_f_def)
qed

end
